theory Spec2Isabelle
  imports Complex_Main
begin

section \<open>Common data: vectors, boxes, errors, the simulator\<close>

text \<open>
  The three scripts drive the pybullet rigid-body simulator. Python floats are modelled
  as real numbers (no rounding), Python integers as naturals where the code only
  produces non-negative values. Raised exceptions are the \<open>Inl\<close> branch of a sum.
\<close>

type_synonym vec3 = "real \<times> real \<times> real"

type_synonym aabb = "vec3 \<times> vec3"

datatype error = ZeroDivisionError | IndexError | KeyError | ValueError string

text \<open>\<open>v[i]\<close> for a 3-tuple \<open>v\<close> and \<open>i\<close> in \<open>range(3)\<close>.\<close>

fun at3 :: "vec3 \<Rightarrow> nat \<Rightarrow> real" where
  "at3 (x, y, z) i = (if i = 0 then x else if i = 1 then y else z)"

text \<open>
  The simulator is an external collaborator. Its calls are the fields of a record over
  an abstract world type \<open>'w\<close>; every call is assumed to succeed. Orientations are
  kept as the Euler angles handed to \<open>getQuaternionFromEuler\<close>. Body and constraint
  identifiers are naturals. Keyword arguments of \<open>changeDynamics\<close> are an association
  list.
\<close>

record 'w engine =
  stepSimulation :: "'w \<Rightarrow> 'w"
  setGravity :: "real \<Rightarrow> real \<Rightarrow> real \<Rightarrow> 'w \<Rightarrow> 'w"
  loadURDF :: "string \<Rightarrow> 'w \<Rightarrow> nat \<times> 'w"
  changeDynamics :: "nat \<Rightarrow> (string \<times> real) list \<Rightarrow> 'w \<Rightarrow> 'w"
  resetBasePositionAndOrientation :: "nat \<Rightarrow> vec3 \<Rightarrow> vec3 \<Rightarrow> 'w \<Rightarrow> 'w"
  getBasePosition :: "'w \<Rightarrow> nat \<Rightarrow> vec3"
  getAABB :: "'w \<Rightarrow> nat \<Rightarrow> aabb"
  setCollisionFilterPair :: "nat \<Rightarrow> nat \<Rightarrow> 'w \<Rightarrow> 'w"
  createConstraint :: "nat \<Rightarrow> vec3 \<Rightarrow> vec3 \<Rightarrow> vec3 \<Rightarrow> vec3 \<Rightarrow> 'w \<Rightarrow> nat \<times> 'w"
  changeConstraint :: "nat \<Rightarrow> vec3 \<Rightarrow> vec3 \<Rightarrow> real \<Rightarrow> 'w \<Rightarrow> 'w"
  removeBody :: "nat \<Rightarrow> 'w \<Rightarrow> 'w"
  disconnect :: "'w \<Rightarrow> 'w"

text \<open>
  \<open>for i in range(n): body\<close>, where the body may raise: \<open>for_range body n s\<close> is the
  state after the iterations \<open>0, \<dots>, n - 1\<close>, or the first error.
\<close>

primrec for_range :: "(nat \<Rightarrow> 's \<Rightarrow> error + 's) \<Rightarrow> nat \<Rightarrow> 's \<Rightarrow> error + 's" where
  "for_range body 0 s = Inr s"
| "for_range body (Suc n) s =
     (case for_range body n s of Inl e \<Rightarrow> Inl e | Inr s' \<Rightarrow> body n s')"


section \<open>containability.py\<close>

record Containability =
  sphere_num :: nat
  sphere_in_percentage_threshold :: real
  sphere_restitution :: real
  containability :: bool
  simulation_iteration :: nat
  check_process :: bool
  sphere_id :: "nat list"
  sphere_drop_orn :: vec3
  sphere_drop_pos :: "vec3 list"
  sphere_in_drop_pos :: "vec3 list"
  obj_curr_aabb :: aabb

definition sphere_urdf :: string where
  "sphere_urdf = ''/home/hongtao/Dropbox/spirit-dictionary/dataset/general_object/sphere_mini.urdf''"

text \<open>The hyperparameters and empty sphere lists set by \<open>__init__\<close>, for a measured box.\<close>

definition init_Containability :: "aabb \<Rightarrow> bool \<Rightarrow> Containability" where
  "init_Containability box chk =
     \<lparr> sphere_num = 225,
       sphere_in_percentage_threshold = 0.2,
       sphere_restitution = 0.0,
       containability = False,
       simulation_iteration = 1000,
       check_process = chk,
       sphere_id = [],
       sphere_drop_orn = (0, 0, 0),
       sphere_drop_pos = [],
       sphere_in_drop_pos = [],
       obj_curr_aabb = box \<rparr>"

subsection \<open>load_sphere\<close>

definition load_sphere_body :: "'w engine \<Rightarrow> nat \<Rightarrow> Containability \<times> 'w \<Rightarrow> error + Containability \<times> 'w" where
  "load_sphere_body E i = (\<lambda>(s, w).
     let (sphere, w1) = loadURDF E sphere_urdf w;
         w2 = changeDynamics E sphere [(''restitution'', sphere_restitution s)] w1
     in Inr (s\<lparr>sphere_id := sphere_id s @ [sphere]\<rparr>, w2))"

definition load_sphere :: "'w engine \<Rightarrow> Containability \<times> 'w \<Rightarrow> error + Containability \<times> 'w" where
  "load_sphere E sw = for_range (load_sphere_body E) (sphere_num (fst sw)) sw"

subsection \<open>reset_sphere_drop\<close>

text \<open>
  \<open>np.linspace(start, stop, num)\<close>: \<open>num\<close> samples, the first at \<open>start\<close>, with step
  \<open>(stop - start) / (num - 1)\<close>; a single sample is \<open>start\<close>, none is the empty array.
\<close>

definition linspace :: "real \<Rightarrow> real \<Rightarrow> nat \<Rightarrow> real list" where
  "linspace start stop num =
     (if num = 1 then [start]
      else map (\<lambda>k. start + real k * ((stop - start) / real (num - 1))) [0..<num])"

definition obj_aabb_xy_center :: "aabb \<Rightarrow> nat \<Rightarrow> real" where
  "obj_aabb_xy_center box i = (at3 (fst box) i + at3 (snd box) i) / 2"

definition obj_aabb_xy_range :: "aabb \<Rightarrow> nat \<Rightarrow> real" where
  "obj_aabb_xy_range box i = \<bar>at3 (fst box) i - at3 (snd box) i\<bar>"

definition sphere_drop_z :: "aabb \<Rightarrow> real" where
  "sphere_drop_z box = at3 (snd box) 2 + 0.01"

definition sphere_per_length :: "nat \<Rightarrow> aabb \<Rightarrow> real" where
  "sphere_per_length N box = sqrt (real N / (obj_aabb_xy_range box 0 * obj_aabb_xy_range box 1))"

text \<open>
  \<open>math.floor\<close> of a non-negative float: the grid dimensions are non-negative Python
  integers, kept as naturals.
\<close>

definition x_sphere_num :: "nat \<Rightarrow> aabb \<Rightarrow> nat" where
  "x_sphere_num N box = nat \<lfloor>sphere_per_length N box * obj_aabb_xy_range box 0\<rfloor>"

definition y_sphere_num :: "nat \<Rightarrow> aabb \<Rightarrow> nat" where
  "y_sphere_num N box = nat \<lfloor>sphere_per_length N box * obj_aabb_xy_range box 1\<rfloor>"

definition sphere_drop_x :: "nat \<Rightarrow> aabb \<Rightarrow> real list" where
  "sphere_drop_x N box =
     map (\<lambda>v. v + obj_aabb_xy_center box 0)
       (linspace (- obj_aabb_xy_range box 0 / 2) (obj_aabb_xy_range box 0 / 2) (x_sphere_num N box))"

definition sphere_drop_y :: "nat \<Rightarrow> aabb \<Rightarrow> real list" where
  "sphere_drop_y N box =
     map (\<lambda>v. v + obj_aabb_xy_center box 1)
       (linspace (- obj_aabb_xy_range box 1 / 2) (obj_aabb_xy_range box 1 / 2) (y_sphere_num N box))"

text \<open>
  The position chosen for probe \<open>i\<close>. The two index computations come before the
  \<open>try\<close>, so a zero \<open>x_sphere_num\<close> raises. Inside the \<open>try\<close>, an index outside
  either coordinate array raises \<open>IndexError\<close>, which the bare \<open>except\<close> turns into
  the randomized position. \<open>np.random.random()\<close> is the stream \<open>rnd\<close>, read at the
  counter \<open>k\<close>; the result carries the advanced counter.
\<close>

definition sphere_start_pos :: "(nat \<Rightarrow> real) \<Rightarrow> nat \<Rightarrow> aabb \<Rightarrow> nat \<Rightarrow> nat \<Rightarrow> error + vec3 \<times> nat" where
  "sphere_start_pos rnd N box i k =
     (if x_sphere_num N box = 0 then Inl ZeroDivisionError
      else
        let y_idx = i div x_sphere_num N box;
            x_idx = i mod x_sphere_num N box
        in if x_idx < length (sphere_drop_x N box) \<and> y_idx < length (sphere_drop_y N box)
           then Inr ((sphere_drop_x N box ! x_idx, sphere_drop_y N box ! y_idx, sphere_drop_z box), k)
           else Inr ((obj_aabb_xy_center box 0 + rnd k * obj_aabb_xy_range box 0 / 2,
                      obj_aabb_xy_center box 1 + rnd (k + 1) * obj_aabb_xy_range box 1 / 2,
                      sphere_drop_z box + 0.05), k + 2))"

definition reset_sphere_drop_body ::
  "'w engine \<Rightarrow> (nat \<Rightarrow> real) \<Rightarrow> aabb \<Rightarrow> nat \<Rightarrow> Containability \<times> 'w \<times> nat \<Rightarrow> error + Containability \<times> 'w \<times> nat" where
  "reset_sphere_drop_body E rnd box i = (\<lambda>(s, w, k).
     case sphere_start_pos rnd (sphere_num s) box i k of
       Inl e \<Rightarrow> Inl e
     | Inr (pos, k') \<Rightarrow>
         if i < length (sphere_id s)
         then Inr (s\<lparr>sphere_drop_pos := sphere_drop_pos s @ [pos]\<rparr>,
                   resetBasePositionAndOrientation E (sphere_id s ! i) pos (sphere_drop_orn s) w,
                   k')
         else Inl IndexError)"

definition reset_sphere_drop ::
  "'w engine \<Rightarrow> (nat \<Rightarrow> real) \<Rightarrow> aabb \<Rightarrow> Containability \<times> 'w \<times> nat \<Rightarrow> error + Containability \<times> 'w \<times> nat" where
  "reset_sphere_drop E rnd box = (\<lambda>(s, w, k).
     if obj_aabb_xy_range box 0 * obj_aabb_xy_range box 1 = 0 then Inl ZeroDivisionError
     else for_range (reset_sphere_drop_body E rnd box) (sphere_num s)
            (s\<lparr>sphere_drop_pos := []\<rparr>, w, k))"

subsection \<open>checkincup\<close>

definition obj_aabb_center :: "aabb \<Rightarrow> nat \<Rightarrow> real" where
  "obj_aabb_center box i = (at3 (fst box) i + at3 (snd box) i) / 2 * 100"

definition obj_aabb_half_range :: "aabb \<Rightarrow> nat \<Rightarrow> real" where
  "obj_aabb_half_range box i = \<bar>at3 (fst box) i - at3 (snd box) i\<bar> * 100 / 2"

text \<open>\<open>np.all(np.absolute(sphere_pos * 100 - obj_aabb_center) < obj_aabb_half_range)\<close>\<close>

definition in_box :: "aabb \<Rightarrow> vec3 \<Rightarrow> bool" where
  "in_box box sphere_pos =
     list_all (\<lambda>i. \<bar>at3 sphere_pos i * 100 - obj_aabb_center box i\<bar> < obj_aabb_half_range box i) [0..<3]"

definition checkincup_body :: "'w engine \<Rightarrow> 'w \<Rightarrow> aabb \<Rightarrow> nat \<Rightarrow> Containability \<Rightarrow> error + Containability" where
  "checkincup_body E w box i s =
     (if i < length (sphere_id s) then
        if in_box box (getBasePosition E w (sphere_id s ! i)) then
          if i < length (sphere_drop_pos s)
          then Inr (s\<lparr>sphere_in_drop_pos := sphere_in_drop_pos s @ [sphere_drop_pos s ! i]\<rparr>)
          else Inl IndexError
        else Inr s
      else Inl IndexError)"

definition checkincup :: "'w engine \<Rightarrow> 'w \<Rightarrow> aabb \<Rightarrow> Containability \<Rightarrow> error + nat \<times> Containability" where
  "checkincup E w box s =
     (case for_range (checkincup_body E w box) (sphere_num s) (s\<lparr>sphere_in_drop_pos := []\<rparr>) of
        Inl e \<Rightarrow> Inl e
      | Inr s' \<Rightarrow> Inr (length (sphere_in_drop_pos s'), s'))"

subsection \<open>get_containability\<close>

text \<open>
  The \<open>if\<close>/\<open>elif\<close> chain of the agitation loop at step \<open>i\<close> of \<open>T\<close>: the gravity
  vector handed to \<open>setGravity\<close>, or \<open>None\<close> when no branch is taken. \<open>int(a * T / b)\<close>
  is \<open>a * T div b\<close>; the two ramps divide by \<open>int(3 * T / 10)\<close>.
\<close>

definition agitation_gravity :: "nat \<Rightarrow> nat \<Rightarrow> error + vec3 option" where
  "agitation_gravity T i =
     (if i > 1 * T div 5 \<and> i < 1 * T div 2 then
        if 3 * T div 10 = 0 then Inl ZeroDivisionError
        else
          let horizontal_field_strength =
                5 + 5 * sin (pi / 2 * (real i - real (T div 5)) / real (3 * T div 10))
          in Inr (Some (horizontal_field_strength, horizontal_field_strength, - 10))
      else if i \<ge> 1 * T div 2 \<and> i < 3 * T div 5 then Inr (Some (10, 10, - 10))
      else if i \<ge> 3 * T div 5 \<and> i < 9 * T div 10 then
        if 3 * T div 10 = 0 then Inl ZeroDivisionError
        else
          let horizontal_field_strength =
                - 5 - 5 * sin (pi / 2 * (real i - real (3 * T div 5)) / real (3 * T div 10))
          in Inr (Some (horizontal_field_strength, horizontal_field_strength, - 10))
      else if i \<ge> 9 * T div 10 then Inr (Some (- 10, - 10, - 10))
      else Inr None)"

text \<open>
  One iteration of the loop. The state is the object, the world and the local
  \<open>sphere_in_num\<close> (unset before step \<open>T / 5\<close>). The sleep of \<open>check_process\<close> changes
  nothing.
\<close>

definition agitation_body ::
  "'w engine \<Rightarrow> nat \<Rightarrow> Containability \<times> 'w \<times> nat option \<Rightarrow> error + Containability \<times> 'w \<times> nat option" where
  "agitation_body E i = (\<lambda>(s, w, sphere_in_num).
     let w1 = stepSimulation E w in
     case (if i = 1 * simulation_iteration s div 5
           then (case checkincup E w1 (obj_curr_aabb s) s of
                   Inl e \<Rightarrow> Inl e
                 | Inr (n, s') \<Rightarrow> Inr (s', Some n))
           else Inr (s, sphere_in_num)) of
       Inl e \<Rightarrow> Inl e
     | Inr (s1, sphere_in_num1) \<Rightarrow>
         (case agitation_gravity (simulation_iteration s1) i of
            Inl e \<Rightarrow> Inl e
          | Inr None \<Rightarrow> Inr (s1, w1, sphere_in_num1)
          | Inr (Some (gx, gy, gz)) \<Rightarrow> Inr (s1, setGravity E gx gy gz w1, sphere_in_num1)))"

definition get_containability ::
  "'w engine \<Rightarrow> (nat \<Rightarrow> real) \<Rightarrow> Containability \<times> 'w \<times> nat \<Rightarrow> error + bool \<times> Containability \<times> 'w \<times> nat" where
  "get_containability E rnd = (\<lambda>(s, w, k).
     case load_sphere E (s, w) of
       Inl e \<Rightarrow> Inl e
     | Inr (s1, w1) \<Rightarrow>
    (case reset_sphere_drop E rnd (obj_curr_aabb s1) (s1, w1, k) of
       Inl e \<Rightarrow> Inl e
     | Inr (s2, w2, k2) \<Rightarrow>
    (case for_range (agitation_body E) (simulation_iteration s2) (s2, w2, None) of
       Inl e \<Rightarrow> Inl e
     | Inr (s3, w3, sphere_in_num) \<Rightarrow>
    (case checkincup E w3 (obj_curr_aabb s3) s3 of
       Inl e \<Rightarrow> Inl e
     | Inr (sphere_in_box_num, s4) \<Rightarrow>
         if sphere_num s4 = 0 then Inl ZeroDivisionError
         else
           let sphere_num_percentage = real sphere_in_box_num / real (sphere_num s4);
               w4 = disconnect E w3;
               s5 = (if sphere_num_percentage > sphere_in_percentage_threshold s4
                     then s4\<lparr>containability := True\<rparr>
                     else s4\<lparr>containability := False\<rparr>)
           in Inr (containability s5, s5, w4, k2)))))"

section \<open>figure4.py\<close>


subsection \<open>checkspillage\<close>



subsection \<open>set_content\<close>











subsection \<open>bottle_pour\<close>



text \<open>
  The pitch commanded at step \<open>i\<close> of the tip motion; the divisor is
  \<open>int(4 * 5 * simulation_iteration / 6)\<close>.
\<close>

definition tip_pitch :: "nat \<Rightarrow> nat \<Rightarrow> real" where
  "tip_pitch T i = 2 * pi / 5 * sin (pi * 2 * real i / real (4 * 5 * T div 6))"

definition tip_body :: "'w engine \<Rightarrow> nat \<Rightarrow> nat \<Rightarrow> vec3 \<Rightarrow> real \<Rightarrow> nat \<Rightarrow> 'w \<Rightarrow> error + 'w" where
  "tip_body E T bottle_constraint_Id pivot planar_angle i w =
     (let w1 = stepSimulation E w
      in if 4 * 5 * T div 6 = 0 then Inl ZeroDivisionError
         else
           let orn = (0, tip_pitch T i, planar_angle)
           in Inr (changeConstraint E bottle_constraint_Id pivot orn 50 w1))"

definition hold_body :: "'w engine \<Rightarrow> nat \<Rightarrow> 'w \<Rightarrow> error + 'w" where
  "hold_body E i w = Inr (stepSimulation E w)"




section \<open>imaginebot_withgripper.py\<close>

type_synonym quat = "real \<times> real \<times> real \<times> real"

type_synonym mat3 = "vec3 \<times> vec3 \<times> vec3"

text \<open>
  The module \<open>ur5_robot.tools\<close> is not part of the sources at hand; the functions the
  controller calls from it are parameters.
\<close>

record tools =
  getMatrixFromQuaternion :: "quat \<Rightarrow> mat3"
  array2vector :: "vec3 \<Rightarrow> vec3"
  vector2array :: "vec3 \<Rightarrow> vec3"
  frobenius_norm :: "vec3 \<Rightarrow> vec3 \<Rightarrow> real"
  exponential_angle_metric :: "mat3 \<Rightarrow> mat3 \<Rightarrow> real"

text \<open>The product \<open>M @ v\<close> of a matrix, given by its rows, and a vector.\<close>

definition matvec :: "mat3 \<Rightarrow> vec3 \<Rightarrow> vec3" where
  "matvec M v =
     (case M of (r0, r1, r2) \<Rightarrow>
        (at3 r0 0 * at3 v 0 + at3 r0 1 * at3 v 1 + at3 r0 2 * at3 v 2,
         at3 r1 0 * at3 v 0 + at3 r1 1 * at3 v 1 + at3 r1 2 * at3 v 2,
         at3 r2 0 * at3 v 0 + at3 r2 1 * at3 v 1 + at3 r2 2 * at3 v 2))"

definition vec_add :: "vec3 \<Rightarrow> vec3 \<Rightarrow> vec3" where
  "vec_add a b = (at3 a 0 + at3 b 0, at3 a 1 + at3 b 1, at3 a 2 + at3 b 2)"

definition vec_sub :: "vec3 \<Rightarrow> vec3 \<Rightarrow> vec3" where
  "vec_sub a b = (at3 a 0 - at3 b 0, at3 a 1 - at3 b 1, at3 a 2 - at3 b 2)"

text \<open>
  The simulator calls of the arm controller, on top of the common ones:
  \<open>getJointState\<close> is the joint position (entry 0 of the state), \<open>getLinkState\<close> the
  position and orientation of a link (entries 0 and 1).
\<close>

record 'w arm_engine = "'w engine" +
  calculateInverseKinematics ::
    "nat \<Rightarrow> nat \<Rightarrow> vec3 \<Rightarrow> quat \<Rightarrow> real list \<Rightarrow> real list \<Rightarrow> real list \<Rightarrow> real list \<Rightarrow> 'w \<Rightarrow> real list"
  setJointMotorControl2 :: "nat \<Rightarrow> nat \<Rightarrow> real \<Rightarrow> real \<Rightarrow> real \<Rightarrow> 'w \<Rightarrow> 'w"
  getJointState :: "'w \<Rightarrow> nat \<Rightarrow> nat \<Rightarrow> real"
  getLinkState :: "'w \<Rightarrow> nat \<Rightarrow> nat \<Rightarrow> vec3 \<times> quat"

text \<open>The named tuple \<open>jointInfo\<close>; its fields \<open>id\<close>, \<open>name\<close> and \<open>type\<close> carry the prefix \<open>joint\<close>.\<close>

record jointInfo =
  jointID :: nat
  jointName :: string
  jointType :: string
  lowerLimit :: real
  upperLimit :: real
  maxForce :: real
  maxVelocity :: real
  controllable :: bool

record ImaginebotWithGripper =
  robotID :: nat
  eeID :: nat
  ee_finger_offset :: vec3
  robotControlJoints :: "string list"
  posErrorTolerance :: real
  ornErrorTolerance :: real
  jointErrorTolerance :: real
  maxControlTimeStep :: nat
  joints :: "string \<rightharpoonup> jointInfo"
  jointsLowerLimit :: "real list"
  jointsUpperLimit :: "real list"
  jointsRange :: "real list"
  jointsRestPose :: "real list"

text \<open>The tolerances, the step budget and the joint tables set by \<open>__init__\<close>.\<close>

definition init_ImaginebotWithGripper ::
  "nat \<Rightarrow> (string \<rightharpoonup> jointInfo) \<Rightarrow> real list \<Rightarrow> real list \<Rightarrow> ImaginebotWithGripper" where
  "init_ImaginebotWithGripper robot js lower upper =
     \<lparr> robotID = robot,
       eeID = 7,
       ee_finger_offset = (0.10559, 0.0, - 0.00410),
       robotControlJoints =
         [''shoulder_pan_joint'', ''shoulder_lift_joint'', ''elbow_joint'',
          ''wrist_1_joint'', ''wrist_2_joint'', ''wrist_3_joint''],
       posErrorTolerance = 0.1,
       ornErrorTolerance = 0.15,
       jointErrorTolerance = 0.001,
       maxControlTimeStep = 2400,
       joints = js,
       jointsLowerLimit = lower,
       jointsUpperLimit = upper,
       jointsRange = [2 * pi, 2 * pi, 2 * pi, 2 * pi, 2 * pi, 2 * pi, 0.4, 0.4],
       jointsRestPose = [pi / 4, - pi / 2, pi / 2, - pi / 2, - pi / 2, 0, 0, 0] \<rparr>"

definition readJointState :: "('w, 'z) arm_engine_scheme \<Rightarrow> ImaginebotWithGripper \<Rightarrow> 'w \<Rightarrow> nat \<Rightarrow> real" where
  "readJointState E s w j = getJointState E w (robotID s) j"

definition readEndEffectorState :: "('w, 'z) arm_engine_scheme \<Rightarrow> ImaginebotWithGripper \<Rightarrow> 'w \<Rightarrow> vec3 \<times> quat" where
  "readEndEffectorState E s w = getLinkState E w (robotID s) (eeID s)"

definition readFingerCenterState ::
  "('w, 'z) arm_engine_scheme \<Rightarrow> tools \<Rightarrow> ImaginebotWithGripper \<Rightarrow> 'w \<Rightarrow> vec3 \<times> quat" where
  "readFingerCenterState E tls s w =
     (let (ee_pos, ee_orn) = readEndEffectorState E s w;
          ee_orn_mat = getMatrixFromQuaternion tls ee_orn;
          finger_pos = vec_add (array2vector tls ee_pos) (matvec ee_orn_mat (array2vector tls (ee_finger_offset s)))
      in (vector2array tls finger_pos, ee_orn))"

definition fingerErrorFlag ::
  "('w, 'z) arm_engine_scheme \<Rightarrow> tools \<Rightarrow> ImaginebotWithGripper \<Rightarrow> vec3 \<Rightarrow> quat \<Rightarrow> 'w \<Rightarrow> bool" where
  "fingerErrorFlag E tls s goal_pos goal_orn w =
     (let (finger_pos, finger_orn) = readFingerCenterState E tls s w;
          pos_err = frobenius_norm tls finger_pos goal_pos;
          orn_err = exponential_angle_metric tls (getMatrixFromQuaternion tls finger_orn)
                      (getMatrixFromQuaternion tls goal_orn)
      in if pos_err \<le> posErrorTolerance s \<and> orn_err \<le> ornErrorTolerance s then False else True)"

text \<open>
  \<open>self.joints[name]\<close> raises \<open>KeyError\<close> for an unknown joint,
  \<open>jointTargetState_list[idx]\<close> raises \<open>IndexError\<close> beyond the list.
\<close>

definition jointErrorFlag_body ::
  "('w, 'z) arm_engine_scheme \<Rightarrow> ImaginebotWithGripper \<Rightarrow> real list \<Rightarrow> 'w \<Rightarrow> nat \<Rightarrow> real \<Rightarrow> error + real" where
  "jointErrorFlag_body E s jointTargetState_list w control_joint_idx joint_error =
     (case joints s (robotControlJoints s ! control_joint_idx) of
        None \<Rightarrow> Inl KeyError
      | Some info \<Rightarrow>
          if control_joint_idx < length jointTargetState_list
          then Inr (joint_error +
                 \<bar>readJointState E s w (jointID info) - jointTargetState_list ! control_joint_idx\<bar>)
          else Inl IndexError)"

definition jointErrorFlag ::
  "('w, 'z) arm_engine_scheme \<Rightarrow> ImaginebotWithGripper \<Rightarrow> real list \<Rightarrow> 'w \<Rightarrow> error + bool" where
  "jointErrorFlag E s jointTargetState_list w =
     (case for_range (jointErrorFlag_body E s jointTargetState_list w) (length (robotControlJoints s)) 0.0 of
        Inl e \<Rightarrow> Inl e
      | Inr joint_error \<Rightarrow> Inr (if joint_error \<le> jointErrorTolerance s then False else True))"

definition motor_body ::
  "('w, 'z) arm_engine_scheme \<Rightarrow> ImaginebotWithGripper \<Rightarrow> real list \<Rightarrow> nat \<Rightarrow> 'w \<Rightarrow> error + 'w" where
  "motor_body E s jointTargetState_list jointIdx w =
     (if jointIdx < length jointTargetState_list then
        let jointTargetState = jointTargetState_list ! jointIdx
        in case joints s (robotControlJoints s ! jointIdx) of
             None \<Rightarrow> Inl KeyError
           | Some info \<Rightarrow>
               Inr (setJointMotorControl2 E (robotID s) (jointID info) jointTargetState
                      (maxForce info) (maxVelocity info / 5) w)
      else Inl IndexError)"

text \<open>
  One pass of the body of the \<open>while\<close> loop up to the new \<open>error_flag\<close>: the motor
  commands, one simulation step, the joint error test.
\<close>

definition control_step ::
  "('w, 'z) arm_engine_scheme \<Rightarrow> ImaginebotWithGripper \<Rightarrow> real list \<Rightarrow> 'w \<Rightarrow> error + 'w \<times> bool" where
  "control_step E s jointTargetState_list w =
     (case for_range (motor_body E s jointTargetState_list) (length (robotControlJoints s)) w of
        Inl e \<Rightarrow> Inl e
      | Inr w1 \<Rightarrow>
         (let w2 = stepSimulation E w1
          in (case jointErrorFlag E s jointTargetState_list w2 of
                Inl e \<Rightarrow> Inl e
              | Inr error_flag \<Rightarrow> Inr (w2, error_flag))))"

text \<open>
  The \<open>while error_flag\<close> loop, entered with \<open>error_flag = True\<close>: after each pass the
  step counter is raised and the loop is left when it has reached \<open>maxControlTimeStep\<close>,
  else continued while \<open>error_flag\<close> holds.
\<close>

function go_to_loop ::
  "('w, 'z) arm_engine_scheme \<Rightarrow> ImaginebotWithGripper \<Rightarrow> real list \<Rightarrow> nat \<Rightarrow> 'w \<Rightarrow> error + 'w" where
  "go_to_loop E s jointTargetState_list simulationTimeStep w =
     (case control_step E s jointTargetState_list w of
        Inl e \<Rightarrow> Inl e
      | Inr (w2, error_flag) \<Rightarrow>
          if simulationTimeStep + 1 \<ge> maxControlTimeStep s then Inr w2
          else if error_flag then go_to_loop E s jointTargetState_list (simulationTimeStep + 1) w2
          else Inr w2)"
  by pat_completeness auto
termination
  by (relation "measure (\<lambda>(E, s, tgt, step, w). maxControlTimeStep s - step)") auto

definition ik_target ::
  "('w, 'z) arm_engine_scheme \<Rightarrow> tools \<Rightarrow> ImaginebotWithGripper \<Rightarrow> vec3 \<Rightarrow> quat \<Rightarrow> 'w \<Rightarrow> real list" where
  "ik_target E tls s pos orn w =
     (let ee_pos = vec_sub (array2vector tls pos)
                     (matvec (getMatrixFromQuaternion tls orn) (array2vector tls (ee_finger_offset s)))
      in calculateInverseKinematics E (robotID s) (eeID s) ee_pos orn
           (butlast (butlast (jointsLowerLimit s))) (butlast (butlast (jointsUpperLimit s)))
           (butlast (butlast (jointsRange s))) (butlast (butlast (jointsRestPose s))) w)"

definition go_to ::
  "('w, 'z) arm_engine_scheme \<Rightarrow> tools \<Rightarrow> ImaginebotWithGripper \<Rightarrow> vec3 \<Rightarrow> quat \<Rightarrow> 'w \<Rightarrow> error + 'w" where
  "go_to E tls s pos orn w =
     (let jointTargetState_list = ik_target E tls s pos orn w
      in case go_to_loop E s jointTargetState_list 0 w of
           Inl e \<Rightarrow> Inl e
         | Inr w' \<Rightarrow>
             if fingerErrorFlag E tls s pos orn w'
             then Inl (ValueError ''The goal pos and orn given are out of the workspace of the robot!'')
             else Inr w')"

section \<open>Reference definitions for the properties\<close>

subsection \<open>Drop lattice and containment\<close>

text \<open>
  What the drop lattice is expected to hold: probe \<open>i\<close> below the lattice capacity sits
  on grid cell \<open>(i mod nx, i div nx)\<close> at the drop height; a probe beyond it takes
  two fresh random draws and sits 5 cm higher. These are compared with what
  \<open>reset_sphere_drop\<close> computes.
\<close>

definition lattice_pos :: "nat \<Rightarrow> aabb \<Rightarrow> nat \<Rightarrow> vec3" where
  "lattice_pos N box i =
     (sphere_drop_x N box ! (i mod x_sphere_num N box),
      sphere_drop_y N box ! (i div x_sphere_num N box),
      at3 (snd box) 2 + 0.01)"

definition fallback_pos :: "(nat \<Rightarrow> real) \<Rightarrow> aabb \<Rightarrow> nat \<Rightarrow> vec3" where
  "fallback_pos rnd box k =
     (obj_aabb_xy_center box 0 + rnd k * obj_aabb_xy_range box 0 / 2,
      obj_aabb_xy_center box 1 + rnd (k + 1) * obj_aabb_xy_range box 1 / 2,
      at3 (snd box) 2 + 0.01 + 0.05)"

definition lattice_capacity :: "nat \<Rightarrow> aabb \<Rightarrow> nat" where
  "lattice_capacity N box = x_sphere_num N box * y_sphere_num N box"

definition drop_pos :: "(nat \<Rightarrow> real) \<Rightarrow> nat \<Rightarrow> aabb \<Rightarrow> nat \<Rightarrow> nat \<Rightarrow> vec3" where
  "drop_pos rnd N box k0 i =
     (if i < lattice_capacity N box then lattice_pos N box i
      else fallback_pos rnd box (k0 + 2 * (i - lattice_capacity N box)))"

text \<open>The simulator after probes \<open>0, \<dots>, n - 1\<close> have been moved to their positions.\<close>

definition place_spheres :: "'w engine \<Rightarrow> Containability \<Rightarrow> (nat \<Rightarrow> vec3) \<Rightarrow> nat \<Rightarrow> 'w \<Rightarrow> 'w" where
  "place_spheres E s pos n w =
     foldl (\<lambda>w i. resetBasePositionAndOrientation E (sphere_id s ! i) (pos i) (sphere_drop_orn s) w) w [0..<n]"

text \<open>
  The axis-aligned point-in-box test in the box's own units: on every axis the distance
  to the centre is strictly below the half-extent.
\<close>

definition axis_inside :: "aabb \<Rightarrow> vec3 \<Rightarrow> nat \<Rightarrow> bool" where
  "axis_inside box p a \<longleftrightarrow>
     \<bar>at3 p a - (at3 (fst box) a + at3 (snd box) a) / 2\<bar> < \<bar>at3 (fst box) a - at3 (snd box) a\<bar> / 2"

definition strictly_inside :: "aabb \<Rightarrow> vec3 \<Rightarrow> bool" where
  "strictly_inside box p \<longleftrightarrow> axis_inside box p 0 \<and> axis_inside box p 1 \<and> axis_inside box p 2"

definition contained_indices :: "'w engine \<Rightarrow> 'w \<Rightarrow> aabb \<Rightarrow> Containability \<Rightarrow> nat list" where
  "contained_indices E w box s =
     filter (\<lambda>i. strictly_inside box (getBasePosition E w (sphere_id s ! i))) [0..<sphere_num s]"

subsection \<open>Agitation\<close>

text \<open>
  The gravity vector in force after the first \<open>n\<close> iterations of the agitation loop,
  starting from the vector \<open>g\<close> set by \<open>__init__\<close>: the last vector the loop has set,
  if any.
\<close>

primrec gravity_in_force :: "nat \<Rightarrow> vec3 \<Rightarrow> nat \<Rightarrow> vec3" where
  "gravity_in_force T g 0 = g"
| "gravity_in_force T g (Suc n) =
     (case agitation_gravity T n of Inr (Some g') \<Rightarrow> g' | _ \<Rightarrow> gravity_in_force T g n)"

text \<open>The five-phase schedule as the loop realises it for \<open>T = 1000\<close>.\<close>

definition schedule_1000 :: "nat \<Rightarrow> vec3 option" where
  "schedule_1000 i =
     (if i \<le> 200 then None
      else if i < 500 then
        Some (5 + 5 * sin (pi / 2 * (real i - 200) / 300), 5 + 5 * sin (pi / 2 * (real i - 200) / 300), - 10)
      else if i < 600 then Some (10, 10, - 10)
      else if i < 900 then
        Some (- 5 - 5 * sin (pi / 2 * (real i - 600) / 300), - 5 - 5 * sin (pi / 2 * (real i - 600) / 300), - 10)
      else Some (- 10, - 10, - 10))"

text \<open>
  The world after the first \<open>n\<close> iterations of the agitation loop when only the
  simulation steps and the gravity commands are run, with no measurement at all.
\<close>

primrec agitated_world :: "'w engine \<Rightarrow> nat \<Rightarrow> nat \<Rightarrow> 'w \<Rightarrow> 'w" where
  "agitated_world E T 0 w = w"
| "agitated_world E T (Suc n) w =
     (let w1 = stepSimulation E (agitated_world E T n w)
      in case agitation_gravity T n of
           Inr (Some (gx, gy, gz)) \<Rightarrow> setGravity E gx gy gz w1
         | _ \<Rightarrow> w1)"

text \<open>\<open>t\<close> is \<open>s\<close> up to the list a measurement writes.\<close>

definition measured :: "Containability \<Rightarrow> Containability \<Rightarrow> bool" where
  "measured s t \<longleftrightarrow> t\<lparr>sphere_in_drop_pos := []\<rparr> = s\<lparr>sphere_in_drop_pos := []\<rparr>"

text \<open>
  The number of probes strictly inside the box of \<open>s\<close> once the world \<open>w\<close> has gone
  through all the steps of the agitation, with no measurement on the way.
\<close>

definition retained :: "'w engine \<Rightarrow> 'w \<Rightarrow> Containability \<Rightarrow> nat" where
  "retained E w s =
     length (contained_indices E
       (agitated_world E (simulation_iteration s) (simulation_iteration s) w) (obj_curr_aabb s) s)"

subsection \<open>Pouring\<close>






subsection \<open>Arm control\<close>

text \<open>The world after \<open>n\<close> passes of the control loop body.\<close>

primrec after_passes ::
  "('w, 'z) arm_engine_scheme \<Rightarrow> ImaginebotWithGripper \<Rightarrow> real list \<Rightarrow> nat \<Rightarrow> 'w \<Rightarrow> error + 'w" where
  "after_passes E s tgt 0 w = Inr w"
| "after_passes E s tgt (Suc n) w =
     (case control_step E s tgt w of Inl e \<Rightarrow> Inl e | Inr (w2, error_flag) \<Rightarrow> after_passes E s tgt n w2)"

text \<open>The position and orientation errors of the finger centre that \<open>fingerErrorFlag\<close> compares.\<close>

definition finger_pos_err ::
  "('w, 'z) arm_engine_scheme \<Rightarrow> tools \<Rightarrow> ImaginebotWithGripper \<Rightarrow> vec3 \<Rightarrow> 'w \<Rightarrow> real" where
  "finger_pos_err E tls s goal_pos w = frobenius_norm tls (fst (readFingerCenterState E tls s w)) goal_pos"

definition finger_orn_err ::
  "('w, 'z) arm_engine_scheme \<Rightarrow> tools \<Rightarrow> ImaginebotWithGripper \<Rightarrow> quat \<Rightarrow> 'w \<Rightarrow> real" where
  "finger_orn_err E tls s goal_orn w =
     exponential_angle_metric tls (getMatrixFromQuaternion tls (snd (readFingerCenterState E tls s w)))
       (getMatrixFromQuaternion tls goal_orn)"

text \<open>The summed joint error that \<open>jointErrorFlag\<close> compares with the tolerance.\<close>

definition joint_error :: "('w, 'z) arm_engine_scheme \<Rightarrow> ImaginebotWithGripper \<Rightarrow> real list \<Rightarrow> 'w \<Rightarrow> real" where
  "joint_error E s tgt w =
     sum_list (map (\<lambda>i. case joints s (robotControlJoints s ! i) of
                          None \<Rightarrow> 0
                        | Some info \<Rightarrow> \<bar>readJointState E s w (jointID info) - tgt ! i\<bar>)
       [0..<length (robotControlJoints s)])"

section \<open>Concrete inputs\<close>

text \<open>
  A simulator that ignores every command: the world is the table of body positions and
  never changes. It serves to run the definitions on concrete inputs.
\<close>

definition inert_engine :: "(nat \<Rightarrow> vec3) engine" where
  "inert_engine =
     \<lparr> stepSimulation = (\<lambda>w. w),
       setGravity = (\<lambda>gx gy gz w. w),
       loadURDF = (\<lambda>file w. (0, w)),
       changeDynamics = (\<lambda>b kw w. w),
       resetBasePositionAndOrientation = (\<lambda>b pos orn w. w),
       getBasePosition = (\<lambda>w b. w b),
       getAABB = (\<lambda>w b. ((0, 0, 0), (0, 0, 0))),
       setCollisionFilterPair = (\<lambda>a b w. w),
       createConstraint = (\<lambda>b pp cp po co w. (0, w)),
       changeConstraint = (\<lambda>c pivot orn f w. w),
       removeBody = (\<lambda>b w. w),
       disconnect = (\<lambda>w. w) \<rparr>"

text \<open>A simulator that ignores every command and reports every body at the point \<open>p\<close>.\<close>

definition pinned_engine :: "vec3 \<Rightarrow> (nat \<Rightarrow> vec3) engine" where
  "pinned_engine p = inert_engine\<lparr>getBasePosition := (\<lambda>w b. p)\<rparr>"


text \<open>
  An arm whose world is the number of simulation steps taken: every joint reads 1 during
  the first three steps and 0 from then on, inverse kinematics answers with eight zeros,
  and the end effector never moves.
\<close>

definition counting_arm :: "nat arm_engine" where
  "counting_arm =
     \<lparr> stepSimulation = Suc,
       setGravity = (\<lambda>gx gy gz w. w),
       loadURDF = (\<lambda>file w. (0, w)),
       changeDynamics = (\<lambda>b kw w. w),
       resetBasePositionAndOrientation = (\<lambda>b pos orn w. w),
       getBasePosition = (\<lambda>w b. (0, 0, 0)),
       getAABB = (\<lambda>w b. ((0, 0, 0), (0, 0, 0))),
       setCollisionFilterPair = (\<lambda>a b w. w),
       createConstraint = (\<lambda>b pp cp po co w. (0, w)),
       changeConstraint = (\<lambda>c pivot orn f w. w),
       removeBody = (\<lambda>b w. w),
       disconnect = (\<lambda>w. w),
       calculateInverseKinematics = (\<lambda>robot link p q lo up rng rest w. [0, 0, 0, 0, 0, 0, 0, 0]),
       setJointMotorControl2 = (\<lambda>robot j target force vel w. w),
       getJointState = (\<lambda>w robot j. if 3 \<le> w then 0 else 1),
       getLinkState = (\<lambda>w robot link. ((1/2, 0, 1/2), (0, 0, 0, 1))) \<rparr>"

text \<open>
  Helper functions for the arm: every orientation is read as the identity rotation, the
  position error is the Euclidean distance.
\<close>

definition plain_tools :: tools where
  "plain_tools =
     \<lparr> getMatrixFromQuaternion = (\<lambda>q. ((1, 0, 0), (0, 1, 0), (0, 0, 1))),
       array2vector = (\<lambda>v. v),
       vector2array = (\<lambda>v. v),
       frobenius_norm = (\<lambda>a b. sqrt ((at3 a 0 - at3 b 0)\<^sup>2 + (at3 a 1 - at3 b 1)\<^sup>2 + (at3 a 2 - at3 b 2)\<^sup>2)),
       exponential_angle_metric = (\<lambda>A B. if A = B then 0 else pi) \<rparr>"

text \<open>
  Boxes: the unit cube; a strip 1 mm wide and 90 cm long, and the same strip turned by a
  quarter; a box whose footprint gives a grid of 10 by 21.
\<close>

definition unit_box :: aabb where
  "unit_box = ((0, 0, 0), (1, 1, 1))"

definition thin_box :: aabb where
  "thin_box = ((0, 0, 1), (1/1000, 9/10, 2))"



text \<open>Every body at the centre of the unit box.\<close>

definition centre_world :: "nat \<Rightarrow> vec3" where
  "centre_world b = (1/2, 1/2, 1/2)"


text \<open>Random sources: every draw of \<open>random()\<close> is 1/2, every \<open>randint\<close> its lower bound.\<close>

definition half_draws :: "nat \<Rightarrow> real" where
  "half_draws j = 1/2"


text \<open>
  The object of \<open>__init__\<close> with its 225 spheres loaded; an object with three spheres and
  their recorded drop positions; a pouring setup with two content particles and two
  indents.
\<close>

definition loaded_Containability :: "aabb \<Rightarrow> Containability" where
  "loaded_Containability box = (init_Containability box False)\<lparr>sphere_id := [0..<225]\<rparr>"



text \<open>The arm of \<open>__init__\<close> with its six control joints in the joint table.\<close>

definition ur5_joint :: "nat \<Rightarrow> string \<Rightarrow> jointInfo" where
  "ur5_joint j n =
     \<lparr> jointID = j, jointName = n, jointType = ''REVOLUTE'', lowerLimit = - pi, upperLimit = pi,
       maxForce = 150, maxVelocity = 3, controllable = True \<rparr>"

definition ur5 :: ImaginebotWithGripper where
  "ur5 = init_ImaginebotWithGripper 0
     (map_of
        [(''shoulder_pan_joint'', ur5_joint 1 ''shoulder_pan_joint''),
         (''shoulder_lift_joint'', ur5_joint 2 ''shoulder_lift_joint''),
         (''elbow_joint'', ur5_joint 3 ''elbow_joint''),
         (''wrist_1_joint'', ur5_joint 4 ''wrist_1_joint''),
         (''wrist_2_joint'', ur5_joint 5 ''wrist_2_joint''),
         (''wrist_3_joint'', ur5_joint 6 ''wrist_3_joint'')])
     [- pi, - pi, - pi, - pi, - pi, - pi, 0, 0] [pi, pi, pi, pi, pi, pi, 0.4, 0.4]"
section \<open>Loops\<close>

lemma for_range_invariant:
  assumes "for_range body n s = Inr s'"
    and "P 0 s"
    and "\<And>i t t'. i < n \<Longrightarrow> P i t \<Longrightarrow> body i t = Inr t' \<Longrightarrow> P (Suc i) t'"
  shows "P n s'"
  using assms
proof (induction n arbitrary: s')
  case 0
  then show ?case by simp
next
  case (Suc n)
  from Suc.prems(1) obtain t where t: "for_range body n s = Inr t" and b: "body n t = Inr s'"
    by (auto split: sum.splits)
  have "P n t"
    using Suc.IH [OF t Suc.prems(2)] Suc.prems(3) by (meson less_Suc_eq)
  then show ?case using Suc.prems(3) [of n t s'] b by simp
qed


lemma for_range_first_error:
  "body 0 s = Inl e \<Longrightarrow> 0 < n \<Longrightarrow> for_range body n s = Inl e"
proof (induction n)
  case 0
  then show ?case by simp
next
  case (Suc n)
  then show ?case by (cases n) simp_all
qed

lemma for_range_prefix:
  "for_range body n s = Inr s' \<Longrightarrow> m \<le> n \<Longrightarrow> \<exists>t. for_range body m s = Inr t"
proof (induction n arbitrary: s')
  case 0
  then show ?case by simp
next
  case (Suc n)
  show ?case
  proof (cases "m = Suc n")
    case True
    with Suc.prems show ?thesis by blast
  next
    case False
    with Suc.prems(2) have "m \<le> n" by simp
    moreover from Suc.prems(1) obtain t where "for_range body n s = Inr t"
      by (auto split: sum.splits)
    ultimately show ?thesis using Suc.IH by blast
  qed
qed

section \<open>containability.py: the containment measurement\<close>

lemma scaled_test:
  "\<bar>x * 100 - c / 2 * 100\<bar> < h * 100 / 2 \<longleftrightarrow> \<bar>x - c / 2\<bar> < h / 2" for x c h :: real
proof -
  have "x * 100 - c / 2 * 100 = 100 * (x - c / 2)" by simp
  then have "\<bar>x * 100 - c / 2 * 100\<bar> = 100 * \<bar>x - c / 2\<bar>" by (simp only: abs_mult)
  then show ?thesis by linarith
qed

lemma in_box_strictly_inside: "in_box box p \<longleftrightarrow> strictly_inside box p"
proof -
  have "[0..<3] = [0, 1, 2]" by (simp add: upt_rec)
  then show ?thesis
    unfolding in_box_def obj_aabb_center_def obj_aabb_half_range_def scaled_test
      strictly_inside_def axis_inside_def
    by simp
qed

lemma checkincup_loop:
  assumes "n \<le> length (sphere_id s)" "n \<le> length (sphere_drop_pos s)"
  shows "for_range (checkincup_body E w box) n (s\<lparr>sphere_in_drop_pos := []\<rparr>) =
           Inr (s\<lparr>sphere_in_drop_pos := map (\<lambda>i. sphere_drop_pos s ! i)
                  (filter (\<lambda>i. in_box box (getBasePosition E w (sphere_id s ! i))) [0..<n])\<rparr>)"
  using assms
proof (induction n)
  case 0
  then show ?case by simp
next
  case (Suc n)
  then show ?case by (simp add: checkincup_body_def)
qed

lemma checkincup_result:
  assumes "sphere_num s \<le> length (sphere_id s)" "sphere_num s \<le> length (sphere_drop_pos s)"
  shows "checkincup E w box s =
           Inr (length (contained_indices E w box s),
                s\<lparr>sphere_in_drop_pos := map (\<lambda>i. sphere_drop_pos s ! i) (contained_indices E w box s)\<rparr>)"
  using checkincup_loop [OF assms, of E w box]
  by (simp add: checkincup_def contained_indices_def in_box_strictly_inside)

lemma contained_indices_cong:
  "sphere_id t = sphere_id s \<Longrightarrow> sphere_num t = sphere_num s \<Longrightarrow>
     contained_indices E w box t = contained_indices E w box s"
  by (simp add: contained_indices_def)




section \<open>containability.py: the drop positions\<close>

lemma length_linspace: "length (linspace a b n) = n"
  by (simp add: linspace_def)



lemma length_sphere_drop_x: "length (sphere_drop_x N box) = x_sphere_num N box"
  by (simp add: sphere_drop_x_def length_linspace)

lemma length_sphere_drop_y: "length (sphere_drop_y N box) = y_sphere_num N box"
  by (simp add: sphere_drop_y_def length_linspace)






lemma sphere_start_pos_eq:
  assumes "0 < x_sphere_num N box"
  shows "sphere_start_pos rnd N box i (k0 + 2 * (i - lattice_capacity N box)) =
           Inr (drop_pos rnd N box k0 i, k0 + 2 * (Suc i - lattice_capacity N box))"
proof -
  have iff: "i div x_sphere_num N box < y_sphere_num N box \<longleftrightarrow> i < lattice_capacity N box"
    using assms by (simp add: lattice_capacity_def div_less_iff_less_mult mult.commute)
  show ?thesis
  proof (cases "i < lattice_capacity N box")
    case True
    then show ?thesis
      using assms iff
      by (simp add: sphere_start_pos_def drop_pos_def lattice_pos_def sphere_drop_z_def
          length_sphere_drop_x length_sphere_drop_y)
  next
    case False
    then have "Suc i - lattice_capacity N box = Suc (i - lattice_capacity N box)" by simp
    with False show ?thesis
      using assms iff
      by (simp add: sphere_start_pos_def drop_pos_def fallback_pos_def sphere_drop_z_def
          length_sphere_drop_x length_sphere_drop_y)
  qed
qed

lemma reset_sphere_drop_loop:
  assumes "0 < x_sphere_num (sphere_num s) box" "n \<le> length (sphere_id s)"
  shows "for_range (reset_sphere_drop_body E rnd box) n (s\<lparr>sphere_drop_pos := []\<rparr>, w, k0) =
           Inr (s\<lparr>sphere_drop_pos := map (drop_pos rnd (sphere_num s) box k0) [0..<n]\<rparr>,
                place_spheres E s (drop_pos rnd (sphere_num s) box k0) n w,
                k0 + 2 * (n - lattice_capacity (sphere_num s) box))"
  using assms(2)
proof (induction n)
  case 0
  then show ?case by (simp add: place_spheres_def)
next
  case (Suc n)
  then show ?case
    by (simp add: reset_sphere_drop_body_def sphere_start_pos_eq [OF assms(1)] place_spheres_def
        del: One_nat_def)
qed

lemma reset_sphere_drop_result:
  assumes "obj_aabb_xy_range box 0 * obj_aabb_xy_range box 1 \<noteq> 0"
    and "0 < x_sphere_num (sphere_num s) box"
    and "sphere_num s \<le> length (sphere_id s)"
  shows "reset_sphere_drop E rnd box (s, w, k0) =
           Inr (s\<lparr>sphere_drop_pos := map (drop_pos rnd (sphere_num s) box k0) [0..<sphere_num s]\<rparr>,
                place_spheres E s (drop_pos rnd (sphere_num s) box k0) (sphere_num s) w,
                k0 + 2 * (sphere_num s - lattice_capacity (sphere_num s) box))"
  using assms reset_sphere_drop_loop [OF assms(2,3), of E rnd w k0]
  by (simp add: reset_sphere_drop_def)

lemma reset_sphere_drop_zero_x:
  assumes "x_sphere_num (sphere_num s) box = 0" "0 < sphere_num s"
  shows "reset_sphere_drop E rnd box (s, w, k) = Inl ZeroDivisionError"
proof -
  have "reset_sphere_drop_body E rnd box 0 (s\<lparr>sphere_drop_pos := []\<rparr>, w, k) = Inl ZeroDivisionError"
    using assms(1) by (simp add: reset_sphere_drop_body_def sphere_start_pos_def)
  from for_range_first_error [where body = "reset_sphere_drop_body E rnd box"
      and s = "(s\<lparr>sphere_drop_pos := []\<rparr>, w, k)", OF this assms(2)] show ?thesis
    by (simp add: reset_sphere_drop_def)
qed

lemma reset_sphere_drop_Inr_D:
  assumes "reset_sphere_drop E rnd box (s, w, k) = Inr r" "0 < sphere_num s"
  shows "obj_aabb_xy_range box 0 * obj_aabb_xy_range box 1 \<noteq> 0"
    and "0 < x_sphere_num (sphere_num s) box"
    and "sphere_num s \<le> length (sphere_id s)"
proof -
  show area: "obj_aabb_xy_range box 0 * obj_aabb_xy_range box 1 \<noteq> 0"
    using assms(1) by (auto simp: reset_sphere_drop_def split: if_splits)
  show nx: "0 < x_sphere_num (sphere_num s) box"
    using assms reset_sphere_drop_zero_x [of s box E rnd w k] by (cases "x_sphere_num (sphere_num s) box") auto
  show "sphere_num s \<le> length (sphere_id s)"
  proof (rule ccontr)
    assume "\<not> sphere_num s \<le> length (sphere_id s)"
    then have L: "Suc (length (sphere_id s)) \<le> sphere_num s" by simp
    have run: "for_range (reset_sphere_drop_body E rnd box) (sphere_num s) (s\<lparr>sphere_drop_pos := []\<rparr>, w, k) = Inr r"
      using assms(1) area by (simp add: reset_sphere_drop_def)
    from for_range_prefix [OF run L] obtain t where
      t: "for_range (reset_sphere_drop_body E rnd box) (Suc (length (sphere_id s))) (s\<lparr>sphere_drop_pos := []\<rparr>, w, k) = Inr t"
      by blast
    have "for_range (reset_sphere_drop_body E rnd box) (Suc (length (sphere_id s))) (s\<lparr>sphere_drop_pos := []\<rparr>, w, k) = Inl IndexError"
      using reset_sphere_drop_loop [OF nx order_refl, of E rnd w k]
      by (simp add: reset_sphere_drop_body_def sphere_start_pos_eq [OF nx] del: One_nat_def)
    with t show False by simp
  qed
qed

lemma reset_sphere_drop_fields:
  assumes "reset_sphere_drop E rnd box (s, w, k) = Inr (s2, w2, k2)" "0 < sphere_num s"
  shows "sphere_num s2 = sphere_num s" "obj_curr_aabb s2 = obj_curr_aabb s"
    "sphere_id s2 = sphere_id s" "simulation_iteration s2 = simulation_iteration s"
  using assms(1) reset_sphere_drop_result [OF reset_sphere_drop_Inr_D [OF assms], of E rnd w k]
  by auto





subsection \<open>A grid without columns or without rows\<close>

lemma sqrt_250000: "sqrt 250000 = 500"
  using real_sqrt_abs [of 500] by simp

lemma thin_box_grid: "x_sphere_num 225 thin_box = 0" "y_sphere_num 225 thin_box = 450"
proof -
  have "sphere_per_length 225 thin_box = 500"
    by (simp add: sphere_per_length_def obj_aabb_xy_range_def thin_box_def sqrt_250000)
  then show "x_sphere_num 225 thin_box = 0" "y_sphere_num 225 thin_box = 450"
    by (simp_all add: x_sphere_num_def y_sphere_num_def obj_aabb_xy_range_def thin_box_def)
qed


text \<open>
  Claim C1, evaluated on the code. For a footprint 1 mm wide and 90 cm long, with the 225
  spheres loaded, the linear density is 500 per metre, the grid has
  \<open>x_sphere_num = floor(0.5) = 0\<close> columns, the footprint area is not zero, and
  \<open>reset_sphere_drop\<close> raises \<open>ZeroDivisionError\<close> at probe 0: the index
  computations \<open>i / x_sphere_num\<close> and \<open>i % x_sphere_num\<close> stand before the \<open>try\<close>.
  No probe is placed.
\<close>

theorem reset_sphere_drop_zero_columns_raises:
  "sphere_per_length 225 thin_box = 500 \<and>
   x_sphere_num 225 thin_box = 0 \<and>
   obj_aabb_xy_range thin_box 0 * obj_aabb_xy_range thin_box 1 = 9/10000 \<and>
   reset_sphere_drop E rnd thin_box (loaded_Containability thin_box, w, k) = Inl ZeroDivisionError"
proof -
  have "reset_sphere_drop E rnd thin_box (loaded_Containability thin_box, w, k) = Inl ZeroDivisionError"
    by (rule reset_sphere_drop_zero_x)
      (simp_all add: loaded_Containability_def init_Containability_def thin_box_grid)
  moreover have "obj_aabb_xy_range thin_box 0 * obj_aabb_xy_range thin_box 1 = 9/10000"
    by (simp add: obj_aabb_xy_range_def thin_box_def)
  moreover have "sphere_per_length 225 thin_box = 500"
    by (simp add: sphere_per_length_def obj_aabb_xy_range_def thin_box_def sqrt_250000)
  ultimately show ?thesis by (simp add: thin_box_grid)
qed



subsection \<open>The lattice\<close>




subsection \<open>The randomized positions\<close>



section \<open>containability.py: the agitation schedule\<close>

lemma agitation_gravity_1000: "agitation_gravity 1000 i = Inr (schedule_1000 i)"
  by (simp add: agitation_gravity_def schedule_1000_def Let_def)

lemma gravity_in_force_settle: "i \<le> 201 \<Longrightarrow> gravity_in_force 1000 g i = g"
  by (induction i) (simp_all add: agitation_gravity_1000 schedule_1000_def)

text \<open>
  Claim C3, amended. For every step \<open>i\<close> of the 1000, the vector the loop sets at step
  \<open>i\<close>, and the vector in force once step \<open>i\<close> is done, follow five phases: nothing is
  set and \<open>(0, 0, -10)\<close> stays in force for \<open>i\<close> in [0, 200]; both horizontal
  components are \<open>5 + 5 sin(pi/2 (i - 200) / 300)\<close> for \<open>i\<close> in (200, 500); 10 for
  [500, 600); \<open>-5 - 5 sin(pi/2 (i - 600) / 300)\<close> for [600, 900); -10 for [900, 1000);
  the vertical component is -10 throughout. The vector depends on \<open>i\<close> and \<open>T\<close> only.
\<close>

theorem agitation_schedule:
  assumes "i < 1000"
  shows "(i \<le> 200 \<longrightarrow>
            agitation_gravity 1000 i = Inr None \<and>
            gravity_in_force 1000 (0, 0, - 10) (Suc i) = (0, 0, - 10)) \<and>
         (200 < i \<and> i < 500 \<longrightarrow>
            agitation_gravity 1000 i =
              Inr (Some (5 + 5 * sin (pi / 2 * (real i - 200) / 300),
                         5 + 5 * sin (pi / 2 * (real i - 200) / 300), - 10)) \<and>
            gravity_in_force 1000 (0, 0, - 10) (Suc i) =
              (5 + 5 * sin (pi / 2 * (real i - 200) / 300),
               5 + 5 * sin (pi / 2 * (real i - 200) / 300), - 10)) \<and>
         (500 \<le> i \<and> i < 600 \<longrightarrow>
            agitation_gravity 1000 i = Inr (Some (10, 10, - 10)) \<and>
            gravity_in_force 1000 (0, 0, - 10) (Suc i) = (10, 10, - 10)) \<and>
         (600 \<le> i \<and> i < 900 \<longrightarrow>
            agitation_gravity 1000 i =
              Inr (Some (- 5 - 5 * sin (pi / 2 * (real i - 600) / 300),
                         - 5 - 5 * sin (pi / 2 * (real i - 600) / 300), - 10)) \<and>
            gravity_in_force 1000 (0, 0, - 10) (Suc i) =
              (- 5 - 5 * sin (pi / 2 * (real i - 600) / 300),
               - 5 - 5 * sin (pi / 2 * (real i - 600) / 300), - 10)) \<and>
         (900 \<le> i \<longrightarrow>
            agitation_gravity 1000 i = Inr (Some (- 10, - 10, - 10)) \<and>
            gravity_in_force 1000 (0, 0, - 10) (Suc i) = (- 10, - 10, - 10)) \<and>
         snd (snd (gravity_in_force 1000 (0, 0, - 10) (Suc i))) = - 10"
proof (cases "i \<le> 200")
  case True
  then have "gravity_in_force 1000 (0, 0, - 10) (Suc i) = (0, 0, - 10)"
    by (intro gravity_in_force_settle) simp
  with True show ?thesis by (simp add: agitation_gravity_1000 schedule_1000_def)
next
  case False
  then show ?thesis by (simp add: agitation_gravity_1000 schedule_1000_def)
qed

theorem agitation_schedule_witness:
  "agitation_gravity 1000 350 = Inr (Some (5 + 5 * (sqrt 2 / 2), 5 + 5 * (sqrt 2 / 2), - 10)) \<and>
   gravity_in_force 1000 (0, 0, - 10) 351 = (5 + 5 * (sqrt 2 / 2), 5 + 5 * (sqrt 2 / 2), - 10)"
proof -
  have arg: "pi / 2 * (real 350 - 200) / 300 = pi / 4" by simp
  have "(350::nat) < 1000" by simp
  from agitation_schedule [OF this] have
    "agitation_gravity 1000 350 =
       Inr (Some (5 + 5 * sin (pi / 2 * (real 350 - 200) / 300),
                  5 + 5 * sin (pi / 2 * (real 350 - 200) / 300), - 10))"
    "gravity_in_force 1000 (0, 0, - 10) (Suc 350) =
       (5 + 5 * sin (pi / 2 * (real 350 - 200) / 300),
        5 + 5 * sin (pi / 2 * (real 350 - 200) / 300), - 10)"
    by simp_all
  moreover have "Suc 350 = 351" by simp
  ultimately show ?thesis unfolding arg sin_45 by simp
qed

text \<open>
  Claim C3 as stated fails at step 200, the first step of its ramp interval: the loop
  sets no vector there (the branch asks for \<open>i > int(T / 5)\<close>), so the horizontal
  components in force are still 0, not \<open>5 + 5 sin 0 = 5\<close>.
\<close>

theorem ramp_starts_after_step_200:
  "agitation_gravity 1000 200 = Inr None \<and>
   gravity_in_force 1000 (0, 0, - 10) (Suc 200) = (0, 0, - 10) \<and>
   fst (gravity_in_force 1000 (0, 0, - 10) (Suc 200)) \<noteq> 5 + 5 * sin (pi / 2 * (200 - 200) / 300)"
proof -
  have "gravity_in_force 1000 (0, 0, - 10) (Suc 200) = (0, 0, - 10)"
    by (rule gravity_in_force_settle) simp
  then show ?thesis by (simp add: agitation_gravity_1000 schedule_1000_def)
qed

section \<open>containability.py: the verdict\<close>

lemma load_sphere_loop:
  "\<exists>ids w1. for_range (load_sphere_body E) n (s, w) = Inr (s\<lparr>sphere_id := sphere_id s @ ids\<rparr>, w1)
     \<and> length ids = n"
proof (induction n)
  case 0
  then show ?case by simp
next
  case (Suc n)
  then obtain ids w1 where
    "for_range (load_sphere_body E) n (s, w) = Inr (s\<lparr>sphere_id := sphere_id s @ ids\<rparr>, w1)"
    "length ids = n" by blast
  note run = this
  obtain a b where l: "loadURDF E sphere_urdf w1 = (a, b)" by (cases "loadURDF E sphere_urdf w1")
  have "for_range (load_sphere_body E) (Suc n) (s, w) =
      Inr (s\<lparr>sphere_id := sphere_id s @ (ids @ [a])\<rparr>,
           changeDynamics E a [(''restitution'', sphere_restitution s)] b)"
    using run(1) l by (simp add: load_sphere_body_def)
  moreover have "length (ids @ [a]) = Suc n" using run(2) by simp
  ultimately show ?case by blast
qed

lemma load_sphere_result:
  "\<exists>ids w1. load_sphere E (s, w) = Inr (s\<lparr>sphere_id := sphere_id s @ ids\<rparr>, w1)
     \<and> length ids = sphere_num s"
  using load_sphere_loop [of E "sphere_num s" s w] by (simp add: load_sphere_def)

lemma load_sphere_fields:
  assumes "load_sphere E (s, w) = Inr (s1, w1)"
  shows "sphere_num s1 = sphere_num s" "obj_curr_aabb s1 = obj_curr_aabb s"
    "simulation_iteration s1 = simulation_iteration s"
  using assms load_sphere_result [of E s w] by auto

lemma measured_refl: "measured s s"
  by (simp add: measured_def)

lemma measured_fields:
  assumes "measured s t"
  shows "sphere_num t = sphere_num s" "sphere_id t = sphere_id s" "sphere_drop_pos t = sphere_drop_pos s"
    "obj_curr_aabb t = obj_curr_aabb s" "simulation_iteration t = simulation_iteration s"
    "sphere_in_percentage_threshold t = sphere_in_percentage_threshold s"
proof -
  let ?t = "t\<lparr>sphere_in_drop_pos := []\<rparr>" and ?s = "s\<lparr>sphere_in_drop_pos := []\<rparr>"
  have "sphere_num ?t = sphere_num ?s" "sphere_id ?t = sphere_id ?s"
    "sphere_drop_pos ?t = sphere_drop_pos ?s" "obj_curr_aabb ?t = obj_curr_aabb ?s"
    "simulation_iteration ?t = simulation_iteration ?s"
    "sphere_in_percentage_threshold ?t = sphere_in_percentage_threshold ?s"
    using assms by (simp_all only: measured_def)
  then show "sphere_num t = sphere_num s" "sphere_id t = sphere_id s" "sphere_drop_pos t = sphere_drop_pos s"
    "obj_curr_aabb t = obj_curr_aabb s" "simulation_iteration t = simulation_iteration s"
    "sphere_in_percentage_threshold t = sphere_in_percentage_threshold s"
    by simp_all
qed

lemma measured_update: "measured s t \<Longrightarrow> measured s (t\<lparr>sphere_in_drop_pos := Y\<rparr>)"
  by (simp add: measured_def)

lemma measured_overwrite:
  assumes "measured s t"
  shows "t\<lparr>sphere_in_drop_pos := Y\<rparr> = s\<lparr>sphere_in_drop_pos := Y\<rparr>"
proof -
  have "(t\<lparr>sphere_in_drop_pos := []\<rparr>)\<lparr>sphere_in_drop_pos := Y\<rparr> =
        (s\<lparr>sphere_in_drop_pos := []\<rparr>)\<lparr>sphere_in_drop_pos := Y\<rparr>"
    using assms by (simp only: measured_def)
  then show ?thesis by simp
qed

lemma agitation_body_step:
  assumes len: "sphere_num s \<le> length (sphere_id s)" "sphere_num s \<le> length (sphere_drop_pos s)"
    and T: "3 * simulation_iteration s div 10 \<noteq> 0"
    and m: "measured s t"
    and w: "w = agitated_world E (simulation_iteration s) i w0"
  shows "\<exists>t' m'. agitation_body E i (t, w, m0) =
           Inr (t', agitated_world E (simulation_iteration s) (Suc i) w0, m') \<and> measured s t'"
proof -
  note f = measured_fields [OF m]
  have lt: "sphere_num t \<le> length (sphere_id t)" "sphere_num t \<le> length (sphere_drop_pos t)"
    using len by (simp_all add: f)
  have "\<exists>go. agitation_gravity (simulation_iteration s) i = Inr go"
    using T by (simp add: agitation_gravity_def Let_def)
  then obtain go where g: "agitation_gravity (simulation_iteration s) i = Inr go" ..
  show ?thesis
  proof (cases "i = 1 * simulation_iteration t div 5")
    case True
    then show ?thesis
      using g w checkincup_result [OF lt, of E "stepSimulation E w" "obj_curr_aabb t"]
        measured_update [OF m]
      by (cases go) (auto simp: agitation_body_def f Let_def)
  next
    case False
    then show ?thesis
      using g w m by (cases go) (auto simp: agitation_body_def f Let_def)
  qed
qed

lemma agitation_loop:
  assumes len: "sphere_num s \<le> length (sphere_id s)" "sphere_num s \<le> length (sphere_drop_pos s)"
    and T: "3 * simulation_iteration s div 10 \<noteq> 0"
  shows "\<exists>t m. for_range (agitation_body E) n (s, w0, None) =
           Inr (t, agitated_world E (simulation_iteration s) n w0, m) \<and> measured s t"
proof (induction n)
  case 0
  then show ?case by (simp add: measured_refl)
next
  case (Suc n)
  then obtain t m where
    run: "for_range (agitation_body E) n (s, w0, None) = Inr (t, agitated_world E (simulation_iteration s) n w0, m)"
    and mt: "measured s t" by blast
  from agitation_body_step [OF len T mt refl, where E = E and i = n and ?m0.0 = m and ?w0.0 = w0]
  show ?case using run by (simp del: agitated_world.simps)
qed

lemma get_containability_run:
  assumes N: "0 < sphere_num s" and T: "3 * simulation_iteration s div 10 \<noteq> 0"
    and load: "load_sphere E (s, w) = Inr (s1, w1)"
    and reset: "reset_sphere_drop E rnd (obj_curr_aabb s1) (s1, w1, k) = Inr (s2, w2, k2)"
  shows "get_containability E rnd (s, w, k) =
     (let W = agitated_world E (simulation_iteration s) (simulation_iteration s) w2;
          C = contained_indices E W (obj_curr_aabb s) s2;
          v = (real (length C) / real (sphere_num s) > sphere_in_percentage_threshold s)
      in Inr (v, s2\<lparr>sphere_in_drop_pos := map (\<lambda>i. sphere_drop_pos s2 ! i) C, containability := v\<rparr>,
              disconnect E W, k2))"
proof -
  from load_sphere_result [of E s w] load obtain ids where
    s1: "s1 = s\<lparr>sphere_id := sphere_id s @ ids\<rparr>" by auto
  have N1: "0 < sphere_num s1" using N by (simp add: s1)
  note D = reset_sphere_drop_Inr_D [OF reset N1]
  from reset reset_sphere_drop_result [OF D, of E rnd w1 k]
  have s2: "s2 = s1\<lparr>sphere_drop_pos := map (drop_pos rnd (sphere_num s1) (obj_curr_aabb s1) k) [0..<sphere_num s1]\<rparr>"
    by simp
  have f2: "sphere_num s2 = sphere_num s" "simulation_iteration s2 = simulation_iteration s"
    "obj_curr_aabb s2 = obj_curr_aabb s"
    "sphere_in_percentage_threshold s2 = sphere_in_percentage_threshold s"
    by (simp_all add: s2 s1)
  have len: "sphere_num s2 \<le> length (sphere_id s2)" "sphere_num s2 \<le> length (sphere_drop_pos s2)"
    using D(3) by (simp_all add: s2)
  have T2: "3 * simulation_iteration s2 div 10 \<noteq> 0" using T by (simp add: f2)
  let ?W = "agitated_world E (simulation_iteration s) (simulation_iteration s) w2"
  from agitation_loop [OF len T2, of E "simulation_iteration s2" w2] obtain t m where
    loop: "for_range (agitation_body E) (simulation_iteration s2) (s2, w2, None) = Inr (t, ?W, m)"
    and mt: "measured s2 t" by (auto simp: f2)
  note ft = measured_fields [OF mt]
  have lt: "sphere_num t \<le> length (sphere_id t)" "sphere_num t \<le> length (sphere_drop_pos t)"
    using len by (simp_all add: ft)
  have C: "contained_indices E ?W (obj_curr_aabb s) t = contained_indices E ?W (obj_curr_aabb s) s2"
    by (rule contained_indices_cong) (simp_all add: ft)
  have chk: "checkincup E ?W (obj_curr_aabb t) t =
      Inr (length (contained_indices E ?W (obj_curr_aabb s) s2),
           s2\<lparr>sphere_in_drop_pos := map (\<lambda>i. sphere_drop_pos s2 ! i) (contained_indices E ?W (obj_curr_aabb s) s2)\<rparr>)"
    using checkincup_result [OF lt, of E ?W "obj_curr_aabb t"]
    by (simp add: ft f2 C measured_overwrite [OF mt])
  have N2: "sphere_num s2 \<noteq> 0" using N by (simp add: f2)
  have box1: "obj_curr_aabb s1 = obj_curr_aabb s" by (simp add: s1)
  show ?thesis
    unfolding get_containability_def
    using load reset loop chk N2
    by (simp add: box1 f2 Let_def)
qed

lemma get_containability_returns:
  assumes "0 < sphere_num s" and "3 * simulation_iteration s div 10 \<noteq> 0"
    and "obj_aabb_xy_range (obj_curr_aabb s) 0 * obj_aabb_xy_range (obj_curr_aabb s) 1 \<noteq> 0"
    and "0 < x_sphere_num (sphere_num s) (obj_curr_aabb s)"
  shows "\<exists>v s' w' k'. get_containability E rnd (s, w, k) = Inr (v, s', w', k')"
proof -
  from load_sphere_result [of E s w] obtain ids w1 where
    load: "load_sphere E (s, w) = Inr (s\<lparr>sphere_id := sphere_id s @ ids\<rparr>, w1)"
    and ids: "length ids = sphere_num s" by blast
  let ?s1 = "s\<lparr>sphere_id := sphere_id s @ ids\<rparr>"
  have "\<exists>r. reset_sphere_drop E rnd (obj_curr_aabb ?s1) (?s1, w1, k) = Inr r"
    using reset_sphere_drop_result [of "obj_curr_aabb ?s1" ?s1 E rnd w1 k] assms(3,4) ids
    by simp
  then obtain s2 w2 k2 where
    "reset_sphere_drop E rnd (obj_curr_aabb ?s1) (?s1, w1, k) = Inr (s2, w2, k2)"
    by (metis prod_cases3)
  from get_containability_run [OF assms(1,2) load this] show ?thesis
    by (simp add: Let_def)
qed

text \<open>
  Claim C2. When \<open>get_containability\<close> returns, with the hyperparameters of \<open>__init__\<close>
  (225 spheres, threshold 0.2, 1000 steps), its verdict is true exactly when the number
  of probes inside the box after all 1000 steps, divided by 225, is strictly above 0.2,
  that is for 46 probes or more; 45 probes give false. That number is taken on the world
  produced by the steps and gravity commands alone, so the measurement at step 200 has
  no part in it; the final measurement also overwrites \<open>sphere_in_drop_pos\<close>.
\<close>

theorem get_containability_verdict:
  assumes "get_containability E rnd (s, w, k) = Inr (verdict, s', w', k')"
    and "sphere_num s = 225"
    and "sphere_in_percentage_threshold s = 0.2"
    and "simulation_iteration s = 1000"
  shows "\<exists>s1 w1 s2 w2.
      load_sphere E (s, w) = Inr (s1, w1) \<and>
      reset_sphere_drop E rnd (obj_curr_aabb s) (s1, w1, k) = Inr (s2, w2, k') \<and>
      verdict = (real (retained E w2 s2) / 225 > 0.2) \<and>
      verdict = (45 < retained E w2 s2) \<and>
      containability s' = verdict \<and>
      sphere_in_drop_pos s' =
        map (\<lambda>i. sphere_drop_pos s2 ! i)
          (contained_indices E (agitated_world E 1000 1000 w2) (obj_curr_aabb s) s2) \<and>
      w' = disconnect E (agitated_world E 1000 1000 w2)"
proof -
  from load_sphere_result [of E s w] obtain ids w1 where
    load: "load_sphere E (s, w) = Inr (s\<lparr>sphere_id := sphere_id s @ ids\<rparr>, w1)" by blast
  let ?s1 = "s\<lparr>sphere_id := sphere_id s @ ids\<rparr>"
  have "\<exists>r. reset_sphere_drop E rnd (obj_curr_aabb ?s1) (?s1, w1, k) = Inr r"
    using assms(1) load by (auto simp: get_containability_def split: sum.splits)
  then obtain s2 w2 k2 where
    reset: "reset_sphere_drop E rnd (obj_curr_aabb ?s1) (?s1, w1, k) = Inr (s2, w2, k2)"
    by (metis prod_cases3)
  have N: "0 < sphere_num s" and T: "3 * simulation_iteration s div 10 \<noteq> 0"
    using assms(2,4) by simp_all
  have N1: "0 < sphere_num ?s1" using N by simp
  note D = reset_sphere_drop_Inr_D [OF reset N1]
  from reset reset_sphere_drop_result [OF D, of E rnd w1 k]
  have f2: "simulation_iteration s2 = 1000" "obj_curr_aabb s2 = obj_curr_aabb s"
    using assms(4) by auto
  have frac: "(real n / 225 > 0.2) \<longleftrightarrow> 45 < n" for n :: nat by (simp add: field_simps)
  show ?thesis
    using get_containability_run [OF N T load reset] assms load reset
    by (auto simp: Let_def retained_def f2 frac)
qed

lemma pinned_contained:
  "strictly_inside box p \<Longrightarrow> contained_indices (pinned_engine p) w box s = [0..<sphere_num s]"
  by (simp add: contained_indices_def pinned_engine_def)

lemma unit_box_grid: "x_sphere_num 225 unit_box = 15"
proof -
  have "sqrt 225 = 15" using real_sqrt_abs [of 15] by simp
  then show ?thesis
    by (simp add: x_sphere_num_def sphere_per_length_def obj_aabb_xy_range_def unit_box_def)
qed

theorem get_containability_verdict_witness:
  "\<exists>s' w' k'.
     get_containability (pinned_engine (1/2, 1/2, 1/2)) half_draws
       (init_Containability unit_box False, centre_world, 0) = Inr (True, s', w', k')"
proof -
  let ?E = "pinned_engine (1/2, 1/2, 1/2)"
  let ?s = "init_Containability unit_box False"
  have c: "sphere_num ?s = 225" "sphere_in_percentage_threshold ?s = 0.2"
    "simulation_iteration ?s = 1000" "obj_curr_aabb ?s = unit_box"
    by (simp_all add: init_Containability_def)
  have "\<exists>v s' w' k'. get_containability ?E half_draws (?s, centre_world, 0) = Inr (v, s', w', k')"
    by (rule get_containability_returns)
      (simp_all add: c unit_box_grid, simp add: obj_aabb_xy_range_def unit_box_def)
  then obtain v s' w' k' where
    run: "get_containability ?E half_draws (?s, centre_world, 0) = Inr (v, s', w', k')" by blast
  from get_containability_verdict [OF run c(1,2,3)] obtain s1 w1 s2 w2 where
    load: "load_sphere ?E (?s, centre_world) = Inr (s1, w1)"
    and reset: "reset_sphere_drop ?E half_draws (obj_curr_aabb ?s) (s1, w1, 0) = Inr (s2, w2, k')"
    and v: "v = (45 < retained ?E w2 s2)" by blast
  have n1: "sphere_num s1 = 225" using load_sphere_fields(1) [OF load] c(1) by simp
  then have "0 < sphere_num s1" by simp
  note f = reset_sphere_drop_fields [OF reset this]
  have "strictly_inside unit_box (1/2, 1/2, 1/2)"
    by (simp add: strictly_inside_def axis_inside_def unit_box_def)
  then have "retained ?E w2 s2 = 225"
    using f(1,2) load_sphere_fields(2) [OF load] n1
    by (simp add: retained_def c pinned_contained)
  with v have "v = True" by simp
  with run show ?thesis by blast
qed

section \<open>figure4.py: spill counts\<close>











lemma tip_loop_total:
  "4 * 5 * T div 6 \<noteq> 0 \<Longrightarrow> \<exists>w'. for_range (tip_body E T c pivot planar_angle) n w = Inr w'"
  by (induction n) (auto simp: tip_body_def Let_def)

lemma hold_loop: "for_range (hold_body E) n w = Inr ((stepSimulation E ^^ n) w)"
  by (induction n) (simp_all add: hold_body_def)










section \<open>figure4.py: pour point and bottle placement\<close>




section \<open>figure4.py: the tip motion\<close>

lemma tip_pitch_600: "tip_pitch 600 i = 2 * pi / 5 * sin (pi * real i / 1000)"
  by (simp add: tip_pitch_def)

lemma tip_arg_range:
  assumes "j < 500"
  shows "0 \<le> pi * real j / 1000" "pi * real j / 1000 < pi / 2"
proof -
  show "0 \<le> pi * real j / 1000" by simp
  have "real j < 500" using assms by simp
  then have "pi * real j < pi * 500" by (simp add: mult_strict_left_mono)
  then show "pi * real j / 1000 < pi / 2" by simp
qed

lemma tip_pitch_increasing:
  assumes "i < j" "j < 500"
  shows "tip_pitch 600 i < tip_pitch 600 j"
proof -
  have "real i < real j" using assms(1) by simp
  then have "pi * real i < pi * real j" by (simp add: mult_strict_left_mono)
  then have lt: "pi * real i / 1000 < pi * real j / 1000" by simp
  have "- (pi / 2) \<le> pi * real i / 1000"
    by (rule order_trans [of _ 0]) simp_all
  from sin_monotone_2pi [OF this lt] tip_arg_range(2) [OF assms(2)]
  have "sin (pi * real i / 1000) < sin (pi * real j / 1000)" by simp
  then show ?thesis by (simp add: tip_pitch_600)
qed

lemma tip_pitch_below_max:
  assumes "j < 500"
  shows "tip_pitch 600 j < 2 * pi / 5"
proof -
  have "- (pi / 2) \<le> pi * real j / 1000"
    by (rule order_trans [of _ 0]) simp_all
  from sin_monotone_2pi [OF this tip_arg_range(2) [OF assms]]
  have "sin (pi * real j / 1000) < 1" by simp
  then have "2 * pi / 5 * sin (pi * real j / 1000) < 2 * pi / 5 * 1"
    by (intro mult_strict_left_mono) simp_all
  then show ?thesis by (simp add: tip_pitch_600)
qed

lemma tip_pitch_nonneg:
  assumes "j < 500"
  shows "0 \<le> tip_pitch 600 j"
proof -
  have "pi * real j / 1000 \<le> pi" using tip_arg_range(2) [OF assms] pi_gt_zero by linarith
  then have "0 \<le> sin (pi * real j / 1000)" by (intro sin_ge_zero) simp_all
  then show ?thesis by (simp add: tip_pitch_600)
qed

lemma tip_loop_step:
  assumes "4 * 5 * T div 6 \<noteq> 0"
  shows "\<exists>wi. for_range (tip_body E T c pivot planar_angle) i w = Inr wi \<and>
           for_range (tip_body E T c pivot planar_angle) (Suc i) w =
             Inr (changeConstraint E c pivot (0, tip_pitch T i, planar_angle) 50 (stepSimulation E wi))"
proof -
  from tip_loop_total [OF assms, of E c pivot planar_angle i w] obtain wi where
    "for_range (tip_body E T c pivot planar_angle) i w = Inr wi" by blast
  then show ?thesis using assms by (simp add: tip_body_def Let_def)
qed

text \<open>
  Claim C7, amended. With \<open>T = 600\<close> the tip loop runs \<open>5T/6 = 500\<close> steps; at step \<open>i\<close>
  it commands the pitch \<open>(2 pi / 5) sin(2 pi i / (4 * 500))\<close>. This is a quarter of a sine
  period: the pitch starts at 0, is never negative, increases strictly from step to step
  and stays below the maximum angle \<open>2 pi / 5\<close>. The \<open>T/6 = 100\<close> steps that follow only
  advance the simulation, leaving the last commanded pose.
\<close>

theorem tip_sweep:
  assumes "i < j" and "j < 500"
  shows "5 * 600 div 6 = (500::nat) \<and> 1 * 600 div 6 = (100::nat) \<and>
         tip_pitch 600 i = 2 * pi / 5 * sin (2 * pi * real i / (4 * 500)) \<and>
         tip_pitch 600 0 = 0 \<and>
         0 \<le> tip_pitch 600 i \<and>
         tip_pitch 600 i < tip_pitch 600 j \<and>
         tip_pitch 600 j < 2 * pi / 5 \<and>
         (\<exists>wi. for_range (tip_body E 600 c pivot planar_angle) i w = Inr wi \<and>
            for_range (tip_body E 600 c pivot planar_angle) (Suc i) w =
              Inr (changeConstraint E c pivot (0, tip_pitch 600 i, planar_angle) 50 (stepSimulation E wi))) \<and>
         for_range (hold_body E) 100 w = Inr ((stepSimulation E ^^ 100) w)"
proof -
  have i: "i < 500" using assms by simp
  have "(4::nat) * 5 * 600 div 6 \<noteq> 0" by simp
  from tip_loop_step [OF this, of E c pivot planar_angle i w]
  show ?thesis
    using tip_pitch_increasing [OF assms] tip_pitch_below_max [OF assms(2)] tip_pitch_nonneg [OF i]
    by (simp add: hold_loop) (simp add: tip_pitch_600)
qed

theorem tip_sweep_witness:
  "tip_pitch 600 0 = 0 \<and> tip_pitch 600 250 = 2 * pi / 5 * (sqrt 2 / 2) \<and>
   tip_pitch 600 0 < tip_pitch 600 250 \<and> tip_pitch 600 250 < 2 * pi / 5"
proof -
  have a: "(0::nat) < 250" and b: "(250::nat) < 500" by simp_all
  have "2 * pi * real 250 / (4 * 500) = pi / 4" by simp
  then have "2 * pi / 5 * sin (2 * pi * real 250 / (4 * 500)) = 2 * pi / 5 * (sqrt 2 / 2)"
    by (simp only: sin_45)
  moreover have "tip_pitch 600 250 = 2 * pi / 5 * sin (2 * pi * real 250 / (4 * 500))"
    by (simp add: tip_pitch_600)
  ultimately show ?thesis
    using tip_sweep [OF a b, of inert_engine 0 "(0, 0, 0)" 0 centre_world] by simp
qed

text \<open>
  Claim C7 as stated fails: the pitch does not come back. At the last step of the tip
  loop, 499, it is above its value at step 250 and above half the maximum angle.
\<close>

theorem tip_sweep_does_not_return:
  "tip_pitch 600 0 = 0 \<and> tip_pitch 600 250 < tip_pitch 600 499 \<and> pi / 5 < tip_pitch 600 499"
proof -
  have "(250::nat) < 499" "(499::nat) < 500" by simp_all
  then have up: "tip_pitch 600 250 < tip_pitch 600 499" by (rule tip_pitch_increasing)
  have "- (pi / 2) \<le> pi / 6" by (rule order_trans [of _ 0]) simp_all
  moreover have "pi / 6 < pi * real 499 / 1000" by simp
  moreover have "pi * real 499 / 1000 \<le> pi / 2" by simp
  ultimately have "sin (pi / 6) < sin (pi * real 499 / 1000)" by (rule sin_monotone_2pi)
  then have "1 / 2 < sin (pi * real 499 / 1000)" by (simp add: sin_30)
  then have "2 * pi / 5 * (1 / 2) < 2 * pi / 5 * sin (pi * real 499 / 1000)"
    by (intro mult_strict_left_mono) simp_all
  then have "pi / 5 < tip_pitch 600 499" by (simp add: tip_pitch_600)
  with up show ?thesis by (simp add: tip_pitch_600)
qed

section \<open>imaginebot_withgripper.py: go_to\<close>

lemma fingerErrorFlag_iff:
  "fingerErrorFlag E tls s goal_pos goal_orn w \<longleftrightarrow>
     finger_pos_err E tls s goal_pos w > posErrorTolerance s \<or>
     finger_orn_err E tls s goal_orn w > ornErrorTolerance s"
  by (auto simp: fingerErrorFlag_def finger_pos_err_def finger_orn_err_def Let_def split: prod.splits)

lemma motor_loop_total:
  assumes "set (robotControlJoints s) \<subseteq> dom (joints s)" "length (robotControlJoints s) \<le> length tgt"
    and "n \<le> length (robotControlJoints s)"
  shows "\<exists>w'. for_range (motor_body E s tgt) n w = Inr w'"
  using assms(3)
proof (induction n)
  case 0
  then show ?case by simp
next
  case (Suc n)
  then obtain w1 where run: "for_range (motor_body E s tgt) n w = Inr w1" by auto
  have n: "n < length (robotControlJoints s)" using Suc.prems by simp
  then have "robotControlJoints s ! n \<in> dom (joints s)" using assms(1) nth_mem by blast
  then obtain info where "joints s (robotControlJoints s ! n) = Some info" by blast
  then have "\<exists>w'. motor_body E s tgt n w1 = Inr w'"
    using n assms(2) by (simp add: motor_body_def Let_def)
  then show ?case using run by simp
qed

lemma jointErrorFlag_loop_total:
  assumes "set (robotControlJoints s) \<subseteq> dom (joints s)" "length (robotControlJoints s) \<le> length tgt"
    and "n \<le> length (robotControlJoints s)"
  shows "\<exists>e. for_range (jointErrorFlag_body E s tgt w) n a = Inr e"
  using assms(3)
proof (induction n)
  case 0
  then show ?case by simp
next
  case (Suc n)
  then obtain e1 where run: "for_range (jointErrorFlag_body E s tgt w) n a = Inr e1" by auto
  have n: "n < length (robotControlJoints s)" using Suc.prems by simp
  then have "robotControlJoints s ! n \<in> dom (joints s)" using assms(1) nth_mem by blast
  then obtain info where "joints s (robotControlJoints s ! n) = Some info" by blast
  then have "\<exists>e. jointErrorFlag_body E s tgt w n e1 = Inr e"
    using n assms(2) by (simp add: jointErrorFlag_body_def)
  then show ?case using run by simp
qed

lemma control_step_total:
  assumes "set (robotControlJoints s) \<subseteq> dom (joints s)" "length (robotControlJoints s) \<le> length tgt"
  shows "\<exists>w2 flag. control_step E s tgt w = Inr (w2, flag) \<and> jointErrorFlag E s tgt w2 = Inr flag"
proof -
  from motor_loop_total [OF assms order_refl, of E w] obtain w1 where
    m: "for_range (motor_body E s tgt) (length (robotControlJoints s)) w = Inr w1" by blast
  from jointErrorFlag_loop_total [OF assms order_refl, of E "stepSimulation E w1" 0] obtain e where
    "for_range (jointErrorFlag_body E s tgt (stepSimulation E w1)) (length (robotControlJoints s)) 0 = Inr e"
    by blast
  then have "\<exists>flag. jointErrorFlag E s tgt (stepSimulation E w1) = Inr flag"
    by (simp add: jointErrorFlag_def)
  then obtain flag where "jointErrorFlag E s tgt (stepSimulation E w1) = Inr flag" ..
  with m show ?thesis by (simp add: control_step_def Let_def)
qed

lemma go_to_loop_char:
  assumes wf: "set (robotControlJoints s) \<subseteq> dom (joints s)" "length (robotControlJoints s) \<le> length tgt"
  shows "\<exists>n w'. 1 \<le> n \<and> (k + n \<le> maxControlTimeStep s \<or> n = 1) \<and>
           after_passes E s tgt n w = Inr w' \<and>
           go_to_loop E s tgt k w = Inr w' \<and>
           (\<forall>m. 1 \<le> m \<and> m < n \<longrightarrow>
              (\<exists>wm. after_passes E s tgt m w = Inr wm \<and> jointErrorFlag E s tgt wm = Inr True)) \<and>
           (k + n < maxControlTimeStep s \<longrightarrow> jointErrorFlag E s tgt w' = Inr False)"
  using wf
proof (induction E s tgt k w rule: go_to_loop.induct)
  case (1 E s tgt k w)
  from control_step_total [OF "1.prems", of E w] obtain w2 flag where
    cs: "control_step E s tgt w = Inr (w2, flag)" and fl: "jointErrorFlag E s tgt w2 = Inr flag" by blast
  show ?case
  proof (cases "k + 1 \<ge> maxControlTimeStep s \<or> \<not> flag")
    case True
    then have loop: "go_to_loop E s tgt k w = Inr w2"
      using cs by (subst go_to_loop.simps) auto
    have "after_passes E s tgt 1 w = Inr w2" using cs by simp
    then show ?thesis
      using loop True fl
      by (intro exI [where x = 1] exI [where x = w2]) auto
  next
    case False
    then have cont: "\<not> maxControlTimeStep s \<le> k + 1" and flag: flag by simp_all
    have loop: "go_to_loop E s tgt k w = go_to_loop E s tgt (k + 1) w2"
      using cs cont flag by (subst go_to_loop.simps) simp
    from "1.IH" [OF cs refl cont flag "1.prems"] obtain n w' where
      n: "1 \<le> n" "k + 1 + n \<le> maxControlTimeStep s \<or> n = 1"
      and ap: "after_passes E s tgt n w2 = Inr w'"
      and gl: "go_to_loop E s tgt (k + 1) w2 = Inr w'"
      and before: "\<forall>m. 1 \<le> m \<and> m < n \<longrightarrow>
              (\<exists>wm. after_passes E s tgt m w2 = Inr wm \<and> jointErrorFlag E s tgt wm = Inr True)"
      and last: "k + 1 + n < maxControlTimeStep s \<longrightarrow> jointErrorFlag E s tgt w' = Inr False"
      by blast
    have ap': "after_passes E s tgt (Suc n) w = Inr w'" using cs ap by simp
    have before': "\<exists>wm. after_passes E s tgt m w = Inr wm \<and> jointErrorFlag E s tgt wm = Inr True"
      if "1 \<le> m" "m < Suc n" for m
    proof (cases "m = 1")
      case True
      then show ?thesis using cs fl flag by simp
    next
      case False
      with that obtain m' where m': "m = Suc m'" "1 \<le> m'" "m' < n" by (cases m) auto
      with before obtain wm where "after_passes E s tgt m' w2 = Inr wm" "jointErrorFlag E s tgt wm = Inr True"
        by blast
      then show ?thesis using cs m' by simp
    qed
    have bound: "k + Suc n \<le> maxControlTimeStep s" using n(2) cont by auto
    show ?thesis
      using ap' gl loop before' bound last
      by (intro exI [where x = "Suc n"] exI [where x = w']) auto
  qed
qed

lemma jointErrorFlag_loop:
  assumes "set (robotControlJoints s) \<subseteq> dom (joints s)" "length (robotControlJoints s) \<le> length tgt"
    and "n \<le> length (robotControlJoints s)"
  shows "for_range (jointErrorFlag_body E s tgt w) n a =
           Inr (a + sum_list (map (\<lambda>i. case joints s (robotControlJoints s ! i) of
                          None \<Rightarrow> 0
                        | Some info \<Rightarrow> \<bar>readJointState E s w (jointID info) - tgt ! i\<bar>) [0..<n]))"
  using assms(3)
proof (induction n)
  case 0
  then show ?case by simp
next
  case (Suc n)
  have n: "n < length (robotControlJoints s)" using Suc.prems by simp
  then have "robotControlJoints s ! n \<in> dom (joints s)" using assms(1) nth_mem by blast
  then obtain info where i: "joints s (robotControlJoints s ! n) = Some info" by blast
  have "jointErrorFlag_body E s tgt w n e = Inr (e + \<bar>readJointState E s w (jointID info) - tgt ! n\<bar>)" for e
    using n assms(2) i by (simp add: jointErrorFlag_body_def)
  then show ?case using Suc i by simp
qed

lemma jointErrorFlag_eq:
  assumes "set (robotControlJoints s) \<subseteq> dom (joints s)" "length (robotControlJoints s) \<le> length tgt"
  shows "jointErrorFlag E s tgt w = Inr (jointErrorTolerance s < joint_error E s tgt w)"
  using jointErrorFlag_loop [OF assms order_refl, of E w 0]
  by (auto simp: jointErrorFlag_def joint_error_def)

text \<open>
  Claim C9. For a robot that has its six control joints and an inverse-kinematics
  answer covering them, \<open>go_to\<close> runs \<open>n\<close> passes of the control loop, with
  \<open>1 \<le> n \<le> 2400\<close>: after each earlier pass the summed joint error was above 0.001, and
  \<open>n\<close> is below 2400 only if after pass \<open>n\<close> the error is at most 0.001. Running out of
  the 2400 passes raises nothing by itself: \<open>go_to\<close> raises \<open>ValueError\<close> exactly when,
  in the world the loop ends in, the finger position error is above 0.1 or the
  orientation error above 0.15, and returns that world otherwise.
\<close>

theorem go_to_soft_timeout:
  assumes "set (robotControlJoints s) \<subseteq> dom (joints s)"
    and "length (robotControlJoints s) \<le> length (ik_target E tls s pos orn w)"
    and "jointErrorTolerance s = 0.001" and "maxControlTimeStep s = 2400"
    and "posErrorTolerance s = 0.1" and "ornErrorTolerance s = 0.15"
  shows "\<exists>n w'.
      1 \<le> n \<and> n \<le> 2400 \<and>
      after_passes E s (ik_target E tls s pos orn w) n w = Inr w' \<and>
      (\<forall>m. 1 \<le> m \<and> m < n \<longrightarrow>
         (\<exists>wm. after_passes E s (ik_target E tls s pos orn w) m w = Inr wm \<and>
               0.001 < joint_error E s (ik_target E tls s pos orn w) wm)) \<and>
      (n < 2400 \<longrightarrow> joint_error E s (ik_target E tls s pos orn w) w' \<le> 0.001) \<and>
      go_to E tls s pos orn w =
        (if 0.1 < finger_pos_err E tls s pos w' \<or> 0.15 < finger_orn_err E tls s orn w'
         then Inl (ValueError ''The goal pos and orn given are out of the workspace of the robot!'')
         else Inr w')"
proof -
  let ?tgt = "ik_target E tls s pos orn w"
  note flag = jointErrorFlag_eq [OF assms(1,2)]
  from go_to_loop_char [OF assms(1,2), of 0 E w] obtain n w' where
    n: "1 \<le> n" "n \<le> maxControlTimeStep s \<or> n = 1"
    and ap: "after_passes E s ?tgt n w = Inr w'"
    and gl: "go_to_loop E s ?tgt 0 w = Inr w'"
    and before: "\<forall>m. 1 \<le> m \<and> m < n \<longrightarrow>
         (\<exists>wm. after_passes E s ?tgt m w = Inr wm \<and> jointErrorFlag E s ?tgt wm = Inr True)"
    and last: "n < maxControlTimeStep s \<longrightarrow> jointErrorFlag E s ?tgt w' = Inr False"
    by auto
  have "n \<le> 2400" using n(2) assms(4) by auto
  moreover have "\<forall>m. 1 \<le> m \<and> m < n \<longrightarrow>
         (\<exists>wm. after_passes E s ?tgt m w = Inr wm \<and> 0.001 < joint_error E s ?tgt wm)"
    using before by (simp add: flag assms(3))
  moreover have "n < 2400 \<longrightarrow> joint_error E s ?tgt w' \<le> 0.001"
    using last by (auto simp: flag assms(3,4))
  moreover have "go_to E tls s pos orn w =
        (if 0.1 < finger_pos_err E tls s pos w' \<or> 0.15 < finger_orn_err E tls s orn w'
         then Inl (ValueError ''The goal pos and orn given are out of the workspace of the robot!'')
         else Inr w')"
    using gl by (simp add: go_to_def Let_def fingerErrorFlag_iff assms(5,6))
  ultimately show ?thesis using n(1) ap by blast
qed

lemma ur5_fields:
  "jointErrorTolerance ur5 = 0.001" "maxControlTimeStep ur5 = 2400"
  "posErrorTolerance ur5 = 0.1" "ornErrorTolerance ur5 = 0.15"
  "length (robotControlJoints ur5) = 6"
  by (simp_all add: ur5_def init_ImaginebotWithGripper_def)

lemma ur5_joints_known: "set (robotControlJoints ur5) \<subseteq> dom (joints ur5)"
  by (simp add: ur5_def init_ImaginebotWithGripper_def)

lemma counting_target: "ik_target counting_arm tls ur5 pos orn w = [0, 0, 0, 0, 0, 0, 0, 0]"
  by (simp add: ik_target_def counting_arm_def Let_def)

lemma counting_joint_error:
  "joint_error counting_arm ur5 [0, 0, 0, 0, 0, 0, 0, 0] w = (if 3 \<le> w then 0 else 6)"
  by (simp add: joint_error_def readJointState_def counting_arm_def ur5_def
      init_ImaginebotWithGripper_def upt_rec)

lemma counting_motor_body: "motor_body counting_arm s tgt i w = Inr w' \<Longrightarrow> w' = w"
  by (auto simp: motor_body_def Let_def counting_arm_def split: if_splits option.splits)

lemma counting_motor_loop:
  assumes "for_range (motor_body counting_arm s tgt) k w = Inr w'"
  shows "w' = w"
  by (rule for_range_invariant [where P = "\<lambda>i t. t = w", OF assms])
    (auto dest: counting_motor_body)

lemma counting_control_step:
  assumes "control_step counting_arm s tgt w = Inr (w2, flag)"
  shows "w2 = Suc w"
proof -
  from assms obtain w1 where
    m: "for_range (motor_body counting_arm s tgt) (length (robotControlJoints s)) w = Inr w1"
    and "w2 = stepSimulation counting_arm w1"
    by (auto simp: control_step_def Let_def split: sum.splits)
  with counting_motor_loop [OF m] show ?thesis by (simp add: counting_arm_def)
qed

lemma counting_passes:
  "after_passes counting_arm ur5 [0, 0, 0, 0, 0, 0, 0, 0] n w = Inr (w + n)"
proof (induction n arbitrary: w)
  case 0
  then show ?case by simp
next
  case (Suc n)
  have len: "length (robotControlJoints ur5) \<le> length [0, 0, 0, 0, 0, 0, 0, (0::real)]"
    by (simp add: ur5_fields)
  from control_step_total [OF ur5_joints_known len, of counting_arm w] obtain w2 flag where
    cs: "control_step counting_arm ur5 [0, 0, 0, 0, 0, 0, 0, 0] w = Inr (w2, flag)" by blast
  with counting_control_step [OF cs] Suc.IH [of "Suc w"] show ?case by simp
qed

lemma sqrt_gt_tenth: "0.01 < x \<Longrightarrow> 0.1 < sqrt x"
  by (rule real_less_rsqrt) (simp add: power2_eq_square)

theorem go_to_soft_timeout_witness:
  "go_to counting_arm plain_tools ur5 (0.60559, 0, 0.4959) (0, 0, 0, 1) 0 = Inr 3 \<and>
   go_to counting_arm plain_tools ur5 (2, 0, 0) (0, 0, 0, 1) 0 =
     Inl (ValueError ''The goal pos and orn given are out of the workspace of the robot!'')"
proof -
  have len: "length (robotControlJoints ur5) \<le> length (ik_target counting_arm plain_tools ur5 pos orn 0)"
    for pos orn by (simp add: counting_target ur5_fields)
  have ends: "w' = 3"
    if n: "1 \<le> n"
      and ap: "after_passes counting_arm ur5 (ik_target counting_arm plain_tools ur5 pos orn 0) n 0 = Inr w'"
      and before: "\<forall>m. 1 \<le> m \<and> m < n \<longrightarrow>
         (\<exists>wm. after_passes counting_arm ur5 (ik_target counting_arm plain_tools ur5 pos orn 0) m 0 = Inr wm \<and>
               0.001 < joint_error counting_arm ur5 (ik_target counting_arm plain_tools ur5 pos orn 0) wm)"
      and last: "n < 2400 \<longrightarrow> joint_error counting_arm ur5 (ik_target counting_arm plain_tools ur5 pos orn 0) w' \<le> 0.001"
    for n w' pos orn
  proof -
    have w': "w' = n" using ap by (simp add: counting_target counting_passes)
    have "\<not> 3 < n"
    proof
      assume "3 < n"
      with before have "\<exists>wm. after_passes counting_arm ur5 (ik_target counting_arm plain_tools ur5 pos orn 0) 3 0 = Inr wm \<and>
               0.001 < joint_error counting_arm ur5 (ik_target counting_arm plain_tools ur5 pos orn 0) wm"
        by simp
      then show False by (auto simp: counting_target counting_passes counting_joint_error)
    qed
    moreover have "\<not> n < 3"
    proof
      assume "n < 3"
      with last w' show False by (simp add: counting_target counting_joint_error)
    qed
    ultimately show ?thesis using w' by simp
  qed
  have finger: "readFingerCenterState counting_arm plain_tools ur5 w = ((0.60559, 0, 0.4959), (0, 0, 0, 1))" for w
    by (simp add: readFingerCenterState_def readEndEffectorState_def counting_arm_def plain_tools_def
        ur5_def init_ImaginebotWithGripper_def vec_add_def matvec_def Let_def)
  have near: "\<not> (0.1 < finger_pos_err counting_arm plain_tools ur5 (0.60559, 0, 0.4959) w \<or>
      0.15 < finger_orn_err counting_arm plain_tools ur5 (0, 0, 0, 1) w)" for w
    by (simp add: finger_pos_err_def finger_orn_err_def finger) (simp add: plain_tools_def)
  have "0.1 < sqrt ((0.60559 - 2)\<^sup>2 + (0 - 0)\<^sup>2 + (0.4959 - 0)\<^sup>2)"
    by (rule sqrt_gt_tenth) (simp add: power2_eq_square)
  then have far: "0.1 < finger_pos_err counting_arm plain_tools ur5 (2, 0, 0) w" for w
    by (simp add: finger_pos_err_def finger) (simp add: plain_tools_def)
  from go_to_soft_timeout [OF ur5_joints_known len ur5_fields(1-4), of "(0.60559, 0, 0.4959)" "(0, 0, 0, 1)"]
  obtain n w' where
    "1 \<le> n" "after_passes counting_arm ur5 (ik_target counting_arm plain_tools ur5 (0.60559, 0, 0.4959) (0, 0, 0, 1) 0) n 0 = Inr w'"
    "\<forall>m. 1 \<le> m \<and> m < n \<longrightarrow>
         (\<exists>wm. after_passes counting_arm ur5 (ik_target counting_arm plain_tools ur5 (0.60559, 0, 0.4959) (0, 0, 0, 1) 0) m 0 = Inr wm \<and>
               0.001 < joint_error counting_arm ur5 (ik_target counting_arm plain_tools ur5 (0.60559, 0, 0.4959) (0, 0, 0, 1) 0) wm)"
    "n < 2400 \<longrightarrow> joint_error counting_arm ur5 (ik_target counting_arm plain_tools ur5 (0.60559, 0, 0.4959) (0, 0, 0, 1) 0) w' \<le> 0.001"
    and g: "go_to counting_arm plain_tools ur5 (0.60559, 0, 0.4959) (0, 0, 0, 1) 0 =
        (if 0.1 < finger_pos_err counting_arm plain_tools ur5 (0.60559, 0, 0.4959) w' \<or>
            0.15 < finger_orn_err counting_arm plain_tools ur5 (0, 0, 0, 1) w'
         then Inl (ValueError ''The goal pos and orn given are out of the workspace of the robot!'')
         else Inr w')"
    by blast
  from ends [OF this(1-4)] g near have first: "go_to counting_arm plain_tools ur5 (0.60559, 0, 0.4959) (0, 0, 0, 1) 0 = Inr 3"
    by simp
  from go_to_soft_timeout [OF ur5_joints_known len ur5_fields(1-4), of "(2, 0, 0)" "(0, 0, 0, 1)"]
  obtain n2 w2 where
    "go_to counting_arm plain_tools ur5 (2, 0, 0) (0, 0, 0, 1) 0 =
        (if 0.1 < finger_pos_err counting_arm plain_tools ur5 (2, 0, 0) w2 \<or>
            0.15 < finger_orn_err counting_arm plain_tools ur5 (0, 0, 0, 1) w2
         then Inl (ValueError ''The goal pos and orn given are out of the workspace of the robot!'')
         else Inr w2)"
    by blast
  with far have "go_to counting_arm plain_tools ur5 (2, 0, 0) (0, 0, 0, 1) 0 =
     Inl (ValueError ''The goal pos and orn given are out of the workspace of the robot!'')"
    by simp
  with first show ?thesis by simp
qed

end
